theory Spec2Isabelle
  imports Complex_Main
begin

section \<open>JavaScript values\<close>

text \<open>
  Strings are sequences of UTF-16 code units, as the source's string type has them;
  \<open>str\<close> turns an ASCII literal into one.  Only ASCII letters have case in this
  model: code units from 128 on are left alone by \<open>toLowerCase\<close>.
\<close>

type_synonym jsstring = "nat list"

definition str :: "string \<Rightarrow> jsstring" where
  "str s = map of_char s"

text \<open>Values of type \<open>any\<close>.  A thrown value is a value like any other.\<close>

datatype jsval =
    JUndefined
  | JNull
  | JBool bool
  | JNum rat
  | JNaN
  | JStr jsstring
  | JArr "jsval list"
  | JObj "(string \<times> jsval) list"

text \<open>What \<open>if (v)\<close>, \<open>!v\<close> and \<open>v || w\<close> test.\<close>

fun truthy :: "jsval \<Rightarrow> bool" where
  "truthy JUndefined = False"
| "truthy JNull = False"
| "truthy (JBool b) = b"
| "truthy (JNum x) = (x \<noteq> 0)"
| "truthy JNaN = False"
| "truthy (JStr s) = (s \<noteq> [])"
| "truthy (JArr _) = True"
| "truthy (JObj _) = True"

fun nullish :: "jsval \<Rightarrow> bool" where
  "nullish JUndefined = True"
| "nullish JNull = True"
| "nullish _ = False"

text \<open>Reading a property of a value that is neither null nor undefined.\<close>

fun property :: "string \<Rightarrow> jsval \<Rightarrow> jsval" where
  "property name (JObj fields) = (case map_of fields name of Some v \<Rightarrow> v | None \<Rightarrow> JUndefined)"
| "property name _ = JUndefined"

definition TypeError :: jsval where
  "TypeError = JObj [(''name'', JStr (str ''TypeError''))]"

definition new_Error :: "string \<Rightarrow> jsval" where
  "new_Error msg = JObj [(''name'', JStr (str ''Error'')), (''message'', JStr (str msg))]"

definition SyntaxError :: jsval where
  "SyntaxError = JObj [(''name'', JStr (str ''SyntaxError''))]"

subsection \<open>String methods\<close>

definition toLower_unit :: "nat \<Rightarrow> nat" where
  "toLower_unit c = (if 65 \<le> c \<and> c \<le> 90 then c + 32 else c)"

definition toUpper_unit :: "nat \<Rightarrow> nat" where
  "toUpper_unit c = (if 97 \<le> c \<and> c \<le> 122 then c - 32 else c)"

definition toLowerCase :: "jsstring \<Rightarrow> jsstring" where
  "toLowerCase s = map toLower_unit s"

fun is_prefix :: "jsstring \<Rightarrow> jsstring \<Rightarrow> bool" where
  "is_prefix [] s = True"
| "is_prefix (c # p) [] = False"
| "is_prefix (c # p) (d # s) = (c = d \<and> is_prefix p s)"

text \<open>\<open>str_includes s sub\<close> is \<open>s.includes(sub)\<close>.\<close>

fun str_includes :: "jsstring \<Rightarrow> jsstring \<Rightarrow> bool" where
  "str_includes [] sub = is_prefix sub []"
| "str_includes (c # s) sub = (is_prefix sub (c # s) \<or> str_includes s sub)"

text \<open>White space and line terminators: what \<open>\s\<close> matches and \<open>trim\<close> strips.\<close>

definition is_space :: "nat \<Rightarrow> bool" where
  "is_space c = (c \<in> set [9, 10, 11, 12, 13, 32, 160, 5760, 8232, 8233, 8239, 8287, 12288, 65279]
                 \<or> (8192 \<le> c \<and> c \<le> 8202))"

definition is_line_terminator :: "nat \<Rightarrow> bool" where
  "is_line_terminator c = (c \<in> set [10, 13, 8232, 8233])"

definition trim :: "jsstring \<Rightarrow> jsstring" where
  "trim s = rev (dropWhile is_space (rev (dropWhile is_space s)))"

section \<open>The data model (services/productService.ts)\<close>

text \<open>A \<open>Date\<close> is its time value in milliseconds; only valid dates are modelled.\<close>

record RecallInfo =
  isRecalled :: bool
  productName :: jsstring
  manufacturer :: jsstring
  lotNumber :: jsstring
  recallDate :: jsstring
  recallReason :: jsstring

record NutritionalInfo =
  calories :: jsstring
  fats :: jsstring
  carbs :: jsstring
  proteins :: jsstring

record ProductDetails =
  recallInfo :: RecallInfo
  nutritionalInfo :: "NutritionalInfo option"
  description :: "jsstring option"
  imageUri :: "jsstring option"
  scanDate :: int

text \<open>
  A stored scan: the object \<open>firestoreData\<close>, its fields prefixed with \<open>d_\<close>, and the
  \<open>id\<close> that only the locally stored copy carries (\<open>local_\<close> and a clock reading).
  Dates are kept as time values in both stores (\<open>Timestamp\<close> and ISO string alike).
\<close>

record ScanDoc =
  d_userId :: jsstring
  d_recallInfo :: RecallInfo
  d_nutritionalInfo :: "NutritionalInfo option"
  d_description :: jsstring
  d_imageUri :: jsstring
  d_scanDate :: int
  d_createdAt :: int
  d_id :: "int option"

text \<open>
  A value held by AsyncStorage under a history key.  The JSON text of an array of scans,
  which is what this module writes, is kept in parsed form.  \<open>Unparsable\<close> stands for a
  non-empty text on which \<open>JSON.parse\<close> throws, \<open>NotArray\<close> for the JSON text of any
  value that is not an array (\<open>null\<close>, a number, a string, an object), which has neither
  \<open>push\<close> nor \<open>map\<close>.
\<close>

datatype stored = EmptyString | Unparsable | NotArray | Json "ScanDoc list"

section \<open>Regular expressions\<close>

text \<open>
  The regular expressions of services/openai.ts as syntax trees, and a backtracking matcher
  for them.  Under the \<open>i\<close> flag two code units are equal when their upper-case forms
  are, and a code unit is in a class when one of its case variants is.
\<close>

datatype citem = Unit nat | Range nat nat | WhiteSpace | NonWhiteSpace | Digit

datatype rx =
    Empty
  | Chr nat
  | Cls "citem list"
  | NotCls "citem list"
  | Cat rx rx
  | Alt rx rx
  | Opt rx
  | Star rx
  | Plus rx
  | LazyPlus rx
  | Group rx
  | Bol
  | Eol
  | Lookahead rx

datatype regexp = RegExp (ignoreCase: bool) (multiline: bool) (body: rx)

definition ch :: "char \<Rightarrow> nat" where
  "ch c = of_char c"

primrec lit :: "jsstring \<Rightarrow> rx" where
  "lit [] = Empty"
| "lit (c # cs) = Cat (Chr c) (lit cs)"

primrec seq :: "rx list \<Rightarrow> rx" where
  "seq [] = Empty"
| "seq (r # rs) = Cat r (seq rs)"

primrec alts :: "rx \<Rightarrow> rx list \<Rightarrow> rx" where
  "alts r [] = r"
| "alts r (r' # rs) = Alt r (alts r' rs)"

definition char_eq :: "bool \<Rightarrow> nat \<Rightarrow> nat \<Rightarrow> bool" where
  "char_eq ic a c = (if ic then toUpper_unit a = toUpper_unit c else a = c)"

definition variants :: "bool \<Rightarrow> nat \<Rightarrow> nat list" where
  "variants ic c = (if ic then [c, toUpper_unit c, toLower_unit c] else [c])"

fun in_item :: "bool \<Rightarrow> nat \<Rightarrow> citem \<Rightarrow> bool" where
  "in_item ic c (Unit a) = char_eq ic a c"
| "in_item ic c (Range lo hi) = list_ex (\<lambda>v. lo \<le> v \<and> v \<le> hi) (variants ic c)"
| "in_item ic c WhiteSpace = is_space c"
| "in_item ic c NonWhiteSpace = (\<not> is_space c)"
| "in_item ic c Digit = (48 \<le> c \<and> c \<le> 57)"

text \<open>
  A state of the matcher: the code unit before the current position, the input still to
  be read, and what group 1 has captured.  \<open>ms ic ml r st\<close> lists the states in which a
  match of \<open>r\<close> from \<open>st\<close> can end, in the order in which backtracking tries them; the
  first one is the match.
\<close>

type_synonym mstate = "nat option \<times> jsstring \<times> jsstring option"

definition rest_of :: "mstate \<Rightarrow> jsstring" where
  "rest_of st = fst (snd st)"

definition progress :: "mstate \<Rightarrow> mstate \<Rightarrow> bool" where
  "progress st st' = (length (rest_of st') < length (rest_of st))"

definition consumed :: "jsstring \<Rightarrow> jsstring \<Rightarrow> jsstring" where
  "consumed rest rest' = take (length rest - length rest') rest"

definition step :: "(nat \<Rightarrow> bool) \<Rightarrow> mstate \<Rightarrow> mstate list" where
  "step ok st =
     (case st of (prev, rest, cap) \<Rightarrow>
        (case rest of [] \<Rightarrow> [] | c # r \<Rightarrow> if ok c then [(Some c, r, cap)] else []))"

text \<open>
  Greedy and lazy repetition of a matcher \<open>f\<close>.  An iteration that consumes nothing is
  rejected, so there are at most as many iterations as code units left; that number is
  the bound.
\<close>

primrec star :: "(mstate \<Rightarrow> mstate list) \<Rightarrow> nat \<Rightarrow> mstate \<Rightarrow> mstate list" where
  "star f 0 st = [st]"
| "star f (Suc n) st = concat (map (star f n) (filter (progress st) (f st))) @ [st]"

primrec lazy_star :: "(mstate \<Rightarrow> mstate list) \<Rightarrow> nat \<Rightarrow> mstate \<Rightarrow> mstate list" where
  "lazy_star f 0 st = [st]"
| "lazy_star f (Suc n) st = st # concat (map (lazy_star f n) (filter (progress st) (f st)))"

primrec ms :: "bool \<Rightarrow> bool \<Rightarrow> rx \<Rightarrow> mstate \<Rightarrow> mstate list" where
  "ms ic ml Empty = (\<lambda>st. [st])"
| "ms ic ml (Chr a) = step (char_eq ic a)"
| "ms ic ml (Cls items) = step (\<lambda>c. list_ex (in_item ic c) items)"
| "ms ic ml (NotCls items) = step (\<lambda>c. \<not> list_ex (in_item ic c) items)"
| "ms ic ml (Cat r1 r2) = (\<lambda>st. concat (map (ms ic ml r2) (ms ic ml r1 st)))"
| "ms ic ml (Alt r1 r2) = (\<lambda>st. ms ic ml r1 st @ ms ic ml r2 st)"
| "ms ic ml (Opt r) = (\<lambda>st. filter (progress st) (ms ic ml r st) @ [st])"
| "ms ic ml (Star r) = (\<lambda>st. star (ms ic ml r) (length (rest_of st)) st)"
| "ms ic ml (Plus r) =
     (\<lambda>st. concat (map (\<lambda>st'. star (ms ic ml r) (length (rest_of st')) st') (ms ic ml r st)))"
| "ms ic ml (LazyPlus r) =
     (\<lambda>st. concat (map (\<lambda>st'. lazy_star (ms ic ml r) (length (rest_of st')) st') (ms ic ml r st)))"
| "ms ic ml (Group r) =
     (\<lambda>st. map (\<lambda>st'. (fst st', rest_of st', Some (consumed (rest_of st) (rest_of st'))))
              (ms ic ml r st))"
| "ms ic ml Bol =
     (\<lambda>st. case fst st of
              None \<Rightarrow> [st]
            | Some c \<Rightarrow> if ml \<and> is_line_terminator c then [st] else [])"
| "ms ic ml Eol =
     (\<lambda>st. case rest_of st of
              [] \<Rightarrow> [st]
            | c # r \<Rightarrow> if ml \<and> is_line_terminator c then [st] else [])"
| "ms ic ml (Lookahead r) = (\<lambda>st. if ms ic ml r st = [] then [] else [st])"

text \<open>
  \<open>s.match(re)\<close> for a regular expression without the \<open>g\<close> flag: the leftmost match,
  as \<open>match[0]\<close> and \<open>match[1]\<close> (\<open>None\<close> when group 1 took no part), or \<open>None\<close> for
  null.
\<close>

primrec search :: "regexp \<Rightarrow> nat option \<Rightarrow> jsstring \<Rightarrow> (jsstring \<times> jsstring option) option" where
  "search re prev [] =
     (case ms (ignoreCase re) (multiline re) (body re) (prev, [], None) of
        [] \<Rightarrow> None
      | st # sts \<Rightarrow> Some ([], snd (snd st)))"
| "search re prev (c # s) =
     (case ms (ignoreCase re) (multiline re) (body re) (prev, c # s, None) of
        [] \<Rightarrow> search re (Some c) s
      | st # sts \<Rightarrow> Some (consumed (c # s) (rest_of st), snd (snd st)))"

definition str_match :: "jsstring \<Rightarrow> regexp \<Rightarrow> (jsstring \<times> jsstring option) option" where
  "str_match s re = search re None s"

text \<open>
  \<open>s.split(re)\<close> for a separator without groups that never matches the empty string, as
  the three separators of this module are: \<open>piece\<close> is the part of the current piece
  read so far.
\<close>

fun split_from :: "regexp \<Rightarrow> jsstring \<Rightarrow> nat option \<Rightarrow> jsstring \<Rightarrow> jsstring list" where
  "split_from re piece prev rest =
     (let found = ms (ignoreCase re) (multiline re) (body re) (prev, rest, None)
      in if found \<noteq> [] \<and> length (rest_of (hd found)) < length rest
         then piece # split_from re [] (fst (hd found)) (rest_of (hd found))
         else (case rest of
                 [] \<Rightarrow> [piece]
               | c # r \<Rightarrow> split_from re (piece @ [c]) (Some c) r))"

declare split_from.simps [simp del]

definition str_split :: "jsstring \<Rightarrow> regexp \<Rightarrow> jsstring list" where
  "str_split s re = split_from re [] None s"

section \<open>State, effects and the outside world\<close>

record CacheEntry =
  timestamp :: int
  response :: jsval

datatype level = LOG | ERROR

text \<open>
  The state of the running app and the trace of its effects.  \<open>responseCache\<close> is the
  cache object of services/openai.ts, read as a finite map (keys are taken not to name a
  property of \<open>Object.prototype\<close>); \<open>firestore\<close> is the \<open>scanHistory\<close> collection and
  \<open>asyncStorage\<close> the local key-value store.  Console lines keep their level and their
  fixed text (without emoji and interpolated values).  The counters say how often the
  clock, the random generator and the operation wrapped by \<open>withRetry\<close> have been used;
  \<open>timeouts\<close> lists the delays handed to \<open>setTimeout\<close>; \<open>fetched\<close>, \<open>uploaded\<close> and
  \<open>file_reads\<close> list the calls made by the image upload.  An uploaded file's name is
  kept as the clock reading and the random value it is built from.
\<close>

record world =
  responseCache :: "jsstring \<rightharpoonup> CacheEntry"
  firestore :: "ScanDoc list"
  asyncStorage :: "jsstring \<rightharpoonup> stored"
  console :: "(level \<times> string) list"
  ticks :: nat
  draws :: nat
  fn_calls :: nat
  timeouts :: "rat list"
  fetched :: "jsstring list"
  uploaded :: "(int \<times> rat) list"
  file_reads :: "jsstring list"

text \<open>
  What the outside supplies.  \<open>clock i\<close> is the value of the \<open>i\<close>-th read of the clock
  (\<open>Date.now()\<close>, \<open>new Date()\<close>, \<open>Timestamp.now()\<close>; milliseconds), \<open>random i\<close> the
  \<open>i\<close>-th value of \<open>Math.random()\<close>, \<open>String_of v\<close> the outcome of \<open>String(v)\<close>,
  \<open>apiKey\<close> the value of \<open>process.env.EXPO_PUBLIC_OPENAI_API_KEY\<close>.  The others say
  how the calls to the network, the file system and the two stores settle: \<open>Inl\<close>
  (or \<open>Some\<close>, for the calls whose result is not used) carries the value thrown.
  \<open>fetch_blob\<close> is \<open>fetch(uri)\<close> followed by \<open>blob()\<close>, and
  \<open>create_completion url i\<close> is the \<open>i\<close>-th call of
  \<open>openai.chat.completions.create\<close>, made with the messages that carry the image \<open>url\<close>.
\<close>

record env =
  clock :: "nat \<Rightarrow> int"
  random :: "nat \<Rightarrow> rat"
  String_of :: "jsval \<Rightarrow> jsval + jsstring"
  apiKey :: jsval
  fetch_blob :: "jsstring \<Rightarrow> jsval + nat list"
  uploadBytes :: "int \<times> rat \<Rightarrow> nat list \<Rightarrow> jsval option"
  getDownloadURL :: "int \<times> rat \<Rightarrow> jsval + jsstring"
  readAsStringAsync :: "jsstring \<Rightarrow> jsval + jsstring"
  create_completion :: "jsstring \<Rightarrow> nat \<Rightarrow> jsval + jsval"
  addDoc_fails :: "jsval option"
  getDocs_fails :: "jsval option"
  getItem_fails :: "jsval option"
  setItem_fails :: "jsval option"

definition console_log :: "string \<Rightarrow> world \<Rightarrow> world" where
  "console_log msg w = w\<lparr>console := console w @ [(LOG, msg)]\<rparr>"

definition console_error :: "string \<Rightarrow> world \<Rightarrow> world" where
  "console_error msg w = w\<lparr>console := console w @ [(ERROR, msg)]\<rparr>"

definition Date_now :: "env \<Rightarrow> world \<Rightarrow> int \<times> world" where
  "Date_now e w = (clock e (ticks w), w\<lparr>ticks := Suc (ticks w)\<rparr>)"

definition Math_random :: "env \<Rightarrow> world \<Rightarrow> rat \<times> world" where
  "Math_random e w = (random e (draws w), w\<lparr>draws := Suc (draws w)\<rparr>)"

section \<open>The resilient call executor (services/openai.ts)\<close>

definition CACHE_EXPIRY :: int where
  "CACHE_EXPIRY = 24 * 60 * 60 * 1000"

text \<open>\<open>backoff retries u\<close> is the value of \<open>getBackoffTime(retries)\<close> when
  \<open>Math.random()\<close> gives \<open>u\<close>.\<close>

definition backoff :: "nat \<Rightarrow> rat \<Rightarrow> rat" where
  "backoff retries u = (let jitter = 1 / 2 + u in min (2 ^ retries * jitter * 1000) 30000)"

definition getBackoffTime :: "env \<Rightarrow> nat \<Rightarrow> world \<Rightarrow> rat \<times> world" where
  "getBackoffTime e retries w = (let (u, w1) = Math_random e w in (backoff retries u, w1))"

definition getCachedResponse :: "env \<Rightarrow> jsstring \<Rightarrow> world \<Rightarrow> jsval \<times> world" where
  "getCachedResponse e cacheKey w =
     (case responseCache w cacheKey of
        None \<Rightarrow> (JNull, w)
      | Some cached \<Rightarrow>
          (let (t, w1) = Date_now e w in
           if t - timestamp cached < CACHE_EXPIRY
           then (response cached, console_log ''Using cached response for:'' w1)
           else (JNull, w1)))"

definition setCachedResponse :: "env \<Rightarrow> jsstring \<Rightarrow> jsval \<Rightarrow> world \<Rightarrow> world" where
  "setCachedResponse e cacheKey r w =
     (let (t, w1) = Date_now e w in
      w1\<lparr>responseCache := (responseCache w1)(cacheKey \<mapsto> \<lparr>timestamp = t, response = r\<rparr>)\<rparr>)"

text \<open>\<open>if (cacheKey)\<close> for a \<open>string | null\<close>: null and the empty string are falsy.\<close>

fun key_given :: "jsstring option \<Rightarrow> bool" where
  "key_given None = False"
| "key_given (Some k) = (k \<noteq> [])"

text \<open>
  The \<open>while (true)\<close> loop of \<open>withRetry\<close>.  The wrapped operation is \<open>fn\<close>: \<open>fn i\<close>
  is how its \<open>i\<close>-th invocation settles, \<open>Inr\<close> a result or \<open>Inl\<close> the value thrown.
  The catch block evaluates \<open>error.message\<close>, which itself throws a TypeError when
  the value thrown is null or undefined.  \<open>maxRetries\<close> is an integer; the loop ends
  because each round brings \<open>retries\<close> closer to it.
\<close>

function retry_loop ::
  "env \<Rightarrow> (nat \<Rightarrow> jsval + jsval) \<Rightarrow> jsstring option \<Rightarrow> int \<Rightarrow> nat \<Rightarrow> world \<Rightarrow> (jsval + jsval) \<times> world"
where
  "retry_loop e fn cacheKey maxRetries retries w =
     (let w1 = w\<lparr>fn_calls := Suc (fn_calls w)\<rparr> in
      case fn (fn_calls w) of
        Inr result \<Rightarrow>
          (Inr result,
           if key_given cacheKey then setCachedResponse e (the cacheKey) result w1 else w1)
      | Inl error \<Rightarrow>
          if nullish error then (Inl TypeError, w1)
          else
            (let w2 = console_error ''API call error:'' w1 in
             if int retries \<ge> maxRetries
             then (Inl error, console_error ''Maximum retries reached, giving up.'' w2)
             else
               (let (backoffTime, w3) = getBackoffTime e (Suc retries) w2;
                    w4 = console_log ''API call failed. Retrying in ... seconds... (Retry .../...)'' w3;
                    w5 = w4\<lparr>timeouts := timeouts w4 @ [backoffTime]\<rparr>
                in retry_loop e fn cacheKey maxRetries (Suc retries) w5)))"
  by pat_completeness auto
termination
  by (relation "measure (\<lambda>(e, fn, cacheKey, maxRetries, retries, w). nat (maxRetries - int retries))") auto

declare retry_loop.simps [simp del]

definition withRetry ::
  "env \<Rightarrow> (nat \<Rightarrow> jsval + jsval) \<Rightarrow> jsstring option \<Rightarrow> int \<Rightarrow> world \<Rightarrow> (jsval + jsval) \<times> world"
where
  "withRetry e fn cacheKey maxRetries w =
     (if key_given cacheKey
      then (let (cached, w1) = getCachedResponse e (the cacheKey) w in
            if truthy cached then (Inr cached, w1)
            else retry_loop e fn cacheKey maxRetries 0 w1)
      else retry_loop e fn cacheKey maxRetries 0 w)"


text \<open>
  The world in which the loop comes round again after a failed attempt that is retried:
  the catch block's effects, in order.
\<close>

definition next_attempt :: "env \<Rightarrow> nat \<Rightarrow> world \<Rightarrow> world" where
  "next_attempt e retries w =
     (let w2 = console_error ''API call error:'' (w\<lparr>fn_calls := Suc (fn_calls w)\<rparr>);
          (backoffTime, w3) = getBackoffTime e (Suc retries) w2;
          w4 = console_log ''API call failed. Retrying in ... seconds... (Retry .../...)'' w3
      in w4\<lparr>timeouts := timeouts w4 @ [backoffTime]\<rparr>)"

section \<open>The history store (services/productService.ts)\<close>

definition history_key :: "jsstring \<Rightarrow> jsstring" where
  "history_key userId = str ''scanHistory_'' @ userId"






text \<open>The scans held in the local list of a user.\<close>

definition local_items :: "world \<Rightarrow> jsstring \<Rightarrow> ScanDoc list" where
  "local_items w userId =
     (case asyncStorage w (history_key userId) of Some (Json items) \<Rightarrow> items | _ \<Rightarrow> [])"

text \<open>
  The innermost try block of \<open>saveScanHistory\<close>: read the local list and parse it,
  build the record (two readings of the clock), append it, write the list back.
\<close>

definition save_local ::
  "env \<Rightarrow> jsstring \<Rightarrow> ProductDetails \<Rightarrow> ScanDoc \<Rightarrow> world \<Rightarrow> (jsval + unit) \<times> world"
where
  "save_local e userId productDetails data w =
     (case getItem_fails e of
        Some err \<Rightarrow> (Inl err, w)
      | None \<Rightarrow>
          (let localHistoryStr = asyncStorage w (history_key userId)
           in if localHistoryStr = Some Unparsable then (Inl SyntaxError, w)
              else
                (let localHistory = local_items w userId;
                     (t1, w1) = Date_now e w;
                     (t2, w2) = Date_now e w1;
                     localScanData = data\<lparr>d_id := Some t1,
                        d_scanDate := scanDate productDetails, d_createdAt := t2\<rparr>
                 in if localHistoryStr = Some NotArray then (Inl TypeError, w2)
                    else (case setItem_fails e of
                            Some err \<Rightarrow> (Inl err, w2)
                          | None \<Rightarrow>
                              (Inr (),
                               console_log ''Scan history saved successfully to local storage''
                                 (w2\<lparr>asyncStorage := (asyncStorage w2)
                                      (history_key userId \<mapsto>
                                         Json (localHistory @ [localScanData]))\<rparr>))))))"











section \<open>Media ingestion (services/openai.ts)\<close>

definition imageToBase64 :: "env \<Rightarrow> jsstring \<Rightarrow> world \<Rightarrow> (jsval + jsstring) \<times> world" where
  "imageToBase64 e uri w =
     (let w1 = w\<lparr>file_reads := file_reads w @ [uri]\<rparr>
      in case readAsStringAsync e uri of
           Inr base64 \<Rightarrow> (Inr base64, w1)
         | Inl error \<Rightarrow> (Inl error, console_error ''Error converting image to base64:'' w1))"

text \<open>
  The inner try block of \<open>uploadImageToFirebase\<close> with its catch block, which logs the
  details of the failure and throws it again.  Reading \<open>uploadError.code\<close> throws a
  TypeError when the value caught is null or undefined.
\<close>

definition upload_blob ::
  "env \<Rightarrow> int \<times> rat \<Rightarrow> nat list \<Rightarrow> world \<Rightarrow> (jsval + jsstring) \<times> world"
where
  "upload_blob e filename blob w =
     (let w1 = w\<lparr>uploaded := uploaded w @ [filename]\<rparr>;
          (r, w2) =
            (case uploadBytes e filename blob of
               Some err \<Rightarrow> (Inl err, w1)
             | None \<Rightarrow>
                 (let w2 = console_log ''Image uploaded to Firebase Storage'' w1
                  in case getDownloadURL e filename of
                       Inl err \<Rightarrow> (Inl err, w2)
                     | Inr downloadURL \<Rightarrow> (Inr downloadURL, console_log ''Image URL:'' w2)))
      in case r of
           Inr downloadURL \<Rightarrow> (Inr downloadURL, w2)
         | Inl uploadError \<Rightarrow>
             (let w3 = console_error ''Firebase Storage upload error details:'' w2
              in if nullish uploadError then (Inl TypeError, w3)
                 else
                   (let w4 = console_error ''- Error code:'' w3;
                        w5 = console_error ''- Error message:'' w4;
                        w6 = console_error ''- Server response:'' w5;
                        w7 = console_error ''- Storage reference:'' w6;
                        code = property ''code'' uploadError;
                        w8 = (if code = JStr (str ''storage/unauthorized'')
                              then console_error
                                ''This appears to be a permissions error. Check your Firebase Storage rules.'' w7
                              else if code = JStr (str ''storage/canceled'')
                              then console_error ''Upload was canceled or timed out.'' w7
                              else if code = JStr (str ''storage/unknown'')
                              then console_error ''Network error or Firebase Storage service issue.'' w7
                              else w7)
                    in (Inl uploadError, w8))))"

text \<open>The outer try block: name the file, fetch the image, upload it.\<close>

definition upload_try :: "env \<Rightarrow> jsstring \<Rightarrow> world \<Rightarrow> (jsval + jsstring) \<times> world" where
  "upload_try e uri w =
     (let (t, w1) = Date_now e w;
          (u, w2) = Math_random e w1;
          filename = (t, u);
          w3 = w2\<lparr>fetched := fetched w2 @ [uri]\<rparr>
      in case fetch_blob e uri of
           Inl err \<Rightarrow> (Inl err, w3)
         | Inr blob \<Rightarrow>
             (let w4 = console_log ''Attempting to upload image to Firebase Storage:'' w3;
                  w5 = console_log ''Storage bucket:'' w4
              in upload_blob e filename blob w5))"

definition data_uri_prefix :: jsstring where
  "data_uri_prefix = str ''data:image/jpeg;base64,''"

definition uploadImageToFirebase :: "env \<Rightarrow> jsstring \<Rightarrow> world \<Rightarrow> (jsval + jsstring) \<times> world" where
  "uploadImageToFirebase e uri w =
     (case upload_try e uri w of
        (Inr downloadURL, w1) \<Rightarrow> (Inr downloadURL, w1)
      | (Inl error, w1) \<Rightarrow>
          (let w2 = console_error ''Error uploading image to Firebase:'' w1;
               w3 = console_log ''Falling back to base64 encoding...'' w2
           in case imageToBase64 e uri w3 of
                (Inr base64, w4) \<Rightarrow> (Inr (data_uri_prefix @ base64), w4)
              | (Inl err, w4) \<Rightarrow> (Inl err, w4)))"


section \<open>The field extractor (services/openai.ts)\<close>

text \<open>
  The key is spliced into each pattern as it is.  The model reads it as literal text,
  which is what the source's \<open>RegExp\<close> does for a key without a syntax character of
  regular expressions (backslash, caret, dollar, dot, bar, question mark, star, plus,
  parentheses, brackets, braces); the keys used in this module are words and spaces.
\<close>

definition plain_key :: "jsstring \<Rightarrow> bool" where
  "plain_key key = list_all (\<lambda>c. c \<notin> set [92, 94, 36, 46, 124, 63, 42, 43, 40, 41, 91, 93, 123, 125]) key"

definition ws :: rx where
  "ws = Star (Cls [WhiteSpace])"

definition rest_of_line :: rx where
  "rest_of_line = Group (Plus (NotCls [Unit 10]))"

definition patterns :: "jsstring \<Rightarrow> regexp list" where
  "patterns key =
    [RegExp True False (seq [lit key, ws, Chr (ch CHR '':''), ws, rest_of_line]),
     RegExp True False (seq [lit key, ws, Chr (ch CHR ''-''), ws, rest_of_line]),
     RegExp True False (seq [lit key, ws, Chr (ch CHR ''=''), ws, rest_of_line]),
     RegExp True False (seq [lit key, ws, lit (str ''content''), ws, Chr (ch CHR '':''), ws, rest_of_line]),
     RegExp True False (seq [lit key, ws, lit (str ''information''), ws, Chr (ch CHR '':''), ws, rest_of_line]),
     RegExp True False (seq [lit (str ''**''), lit key, lit (str ''**''), ws, Chr (ch CHR '':''), ws, rest_of_line]),
     RegExp True False (seq [Chr (ch CHR ''<''), lit key, Chr (ch CHR ''>''),
        Group (Plus (NotCls [Unit (ch CHR ''<'')])), lit (str ''</''), lit key, Chr (ch CHR ''>'')]),
     RegExp True True (seq [Bol, ws, lit key, ws, Chr (ch CHR '':''), ws, rest_of_line]),
     RegExp True False (seq [Chr (ch CHR ''|''), ws, lit key, ws, Chr (ch CHR ''|''), ws,
        Group (Plus (NotCls [Unit (ch CHR ''|''), Unit 10])), ws, Chr (ch CHR ''|'')])]"

text \<open>The first item of the class of \<open>bulletPatterns[0]\<close> is the bullet U+2022.\<close>

definition bulletPatterns :: "jsstring \<Rightarrow> regexp list" where
  "bulletPatterns key =
    [RegExp True False (seq [Plus (Cls [Unit 8226, Unit (ch CHR ''-''), Unit (ch CHR ''*''), Digit,
          Unit (ch CHR ''+''), Unit (ch CHR ''.'')]),
        ws, lit key, ws, Opt (Chr (ch CHR '':'')), ws, rest_of_line]),
     RegExp True False (seq [Cls [Unit 8226, Unit (ch CHR ''-''), Unit (ch CHR ''*'')],
        ws, lit key, ws, Chr (ch CHR '':''), ws, rest_of_line]),
     RegExp True False (seq [Plus (Cls [Digit]), Chr (ch CHR ''.''),
        ws, lit key, ws, Chr (ch CHR '':''), ws, rest_of_line])]"

text \<open>
  The loop over a list of patterns, shared by \<open>patterns\<close> and \<open>bulletPatterns\<close>: the
  first pattern that matches with a group that is not blank gives the result.  Each of
  these patterns has its group on its only path, so a match always sets it.
\<close>

fun first_capture :: "jsstring \<Rightarrow> regexp list \<Rightarrow> jsstring option" where
  "first_capture text [] = None"
| "first_capture text (pattern # rest) =
     (case str_match text pattern of
        Some (whole, Some captured) \<Rightarrow>
          if trim captured \<noteq> [] then Some (trim captured) else first_capture text rest
      | _ \<Rightarrow> first_capture text rest)"

definition digits :: rx where
  "digits = Plus (Cls [Digit])"

definition number :: rx where
  "number = Cat digits (Opt (Cat (Chr (ch CHR ''.'')) digits))"

definition numberWithUnit :: "regexp list" where
  "numberWithUnit =
    [RegExp True False (Group (seq [number, ws,
        alts (lit (str ''g'')) [lit (str ''mg''), lit (str ''kcal''), lit (str ''calories''), lit (str ''cal'')],
        Opt (lit (str ''/serving''))])),
     RegExp True False (Group (seq [number, ws,
        alts (lit (str ''grams'')) [lit (str ''gram''), lit (str ''milligrams''), lit (str ''milligram'')]])),
     RegExp True False (Group (seq [number, ws,
        alts (lit (str ''%'')) [lit (str ''percent'')]]))]"

text \<open>The loop over \<open>numberWithUnitMatches\<close>: the first match that is not empty.\<close>

fun first_whole :: "jsstring \<Rightarrow> regexp list \<Rightarrow> jsstring option" where
  "first_whole sentence [] = None"
| "first_whole sentence (pattern # rest) =
     (case str_match sentence pattern of
        Some (whole, captured) \<Rightarrow>
          if whole \<noteq> [] then Some (trim whole) else first_whole sentence rest
      | None \<Rightarrow> first_whole sentence rest)"

definition sentence_separator :: regexp where
  "sentence_separator =
     RegExp False False (Cat (Chr (ch CHR ''.'')) (Alt (Plus (Cls [WhiteSpace])) (Chr 10)))"

text \<open>The loop over the sentences of the text.\<close>

fun scan_sentences :: "jsstring \<Rightarrow> jsstring list \<Rightarrow> jsstring option" where
  "scan_sentences key [] = None"
| "scan_sentences key (sentence # rest) =
     (if str_includes (toLowerCase sentence) (toLowerCase key)
      then (case first_whole sentence numberWithUnit of
              Some v \<Rightarrow> Some v
            | None \<Rightarrow>
                if length sentence < 100 then Some (trim sentence)
                else scan_sentences key rest)
      else scan_sentences key rest)"

definition sentence_scan :: "jsstring \<Rightarrow> jsstring \<Rightarrow> jsstring option" where
  "sentence_scan text key =
     (if str_includes (toLowerCase text) (toLowerCase key)
      then scan_sentences key (str_split text sentence_separator)
      else None)"

text \<open>The body of the loop over the keys, and the loop.\<close>

definition extract_key :: "jsstring \<Rightarrow> jsstring \<Rightarrow> jsstring option" where
  "extract_key text key =
     (case first_capture text (patterns key) of
        Some v \<Rightarrow> Some v
      | None \<Rightarrow>
          (case first_capture text (bulletPatterns key) of
             Some v \<Rightarrow> Some v
           | None \<Rightarrow> sentence_scan text key))"

fun extract_keys :: "jsstring \<Rightarrow> jsstring list \<Rightarrow> jsstring option" where
  "extract_keys text [] = None"
| "extract_keys text (key # keys) =
     (case extract_key text key of
        Some v \<Rightarrow> Some v
      | None \<Rightarrow> extract_keys text keys)"

definition extractFromResponse :: "jsstring \<Rightarrow> jsstring \<Rightarrow> jsstring list \<Rightarrow> jsstring option" where
  "extractFromResponse text primaryKey alternateKeys = extract_keys text (primaryKey # alternateKeys)"

section \<open>The product analysis pipeline (services/openai.ts)\<close>

subsection \<open>The cache key\<close>

definition hex_digit :: "nat \<Rightarrow> nat" where
  "hex_digit d = (if d < 10 then 48 + d else 87 + d)"

definition unicode_escape :: "nat \<Rightarrow> jsstring" where
  "unicode_escape c =
     [92, 117, hex_digit (c div 4096 mod 16), hex_digit (c div 256 mod 16),
      hex_digit (c div 16 mod 16), hex_digit (c mod 16)]"

text \<open>
  The characters of \<open>JSON.stringify(s)\<close> between the quotes, for a string \<open>s\<close>: quote
  and backslash are escaped, control characters and lone surrogates are written as
  escapes.
\<close>

fun json_units :: "jsstring \<Rightarrow> jsstring" where
  "json_units [] = []"
| "json_units (c # s) =
     (if c = 34 then [92, 34] @ json_units s
      else if c = 92 then [92, 92] @ json_units s
      else if c = 8 then [92, 98] @ json_units s
      else if c = 12 then [92, 102] @ json_units s
      else if c = 10 then [92, 110] @ json_units s
      else if c = 13 then [92, 114] @ json_units s
      else if c = 9 then [92, 116] @ json_units s
      else if c < 32 then unicode_escape c @ json_units s
      else if 55296 \<le> c \<and> c \<le> 56319
      then (case s of
              [] \<Rightarrow> unicode_escape c
            | d # s' \<Rightarrow>
                if 56320 \<le> d \<and> d \<le> 57343 then c # d # json_units s'
                else unicode_escape c @ json_units s)
      else if 56320 \<le> c \<and> c \<le> 57343 then unicode_escape c @ json_units s
      else c # json_units s)"

definition JSON_stringify :: "jsstring \<Rightarrow> jsstring" where
  "JSON_stringify s = [34] @ json_units s @ [34]"

text \<open>\<open>generateCacheKey\<close>, for the string parameter it is called with.\<close>

definition generateCacheKey :: "jsstring \<Rightarrow> jsstring \<Rightarrow> jsstring" where
  "generateCacheKey functionName params = functionName @ str '':'' @ JSON_stringify params"

subsection \<open>The text of the response\<close>

text \<open>\<open>v[0]\<close>: a TypeError on null and undefined.\<close>

definition index0 :: "jsval \<Rightarrow> jsval + jsval" where
  "index0 v =
     (if nullish v then Inl TypeError
      else Inr (case v of
                  JArr xs \<Rightarrow> (case xs of [] \<Rightarrow> JUndefined | x # rest \<Rightarrow> x)
                | JStr s \<Rightarrow> (case s of [] \<Rightarrow> JUndefined | c # rest \<Rightarrow> JStr [c])
                | JObj members \<Rightarrow> property ''0'' v
                | _ \<Rightarrow> JUndefined))"

text \<open>
  \<open>response.choices[0]?.message?.content?.trim() || ''\<close>.  A content that is there but
  is not a string has no \<open>trim\<close> to call.
\<close>

definition responseText_of :: "jsval \<Rightarrow> jsval + jsstring" where
  "responseText_of completion =
     (if nullish completion then Inl TypeError
      else case index0 (property ''choices'' completion) of
             Inl err \<Rightarrow> Inl err
           | Inr choice \<Rightarrow>
               if nullish choice then Inr []
               else (let message = property ''message'' choice
                     in if nullish message then Inr []
                        else (let content = property ''content'' message
                              in if nullish content then Inr []
                                 else (case content of
                                         JStr s \<Rightarrow> Inr (trim s)
                                       | _ \<Rightarrow> Inl TypeError))))"

subsection \<open>Parsing the response\<close>

record Analysis =
  productName :: jsstring
  description :: jsstring
  nutritionalInfo :: "NutritionalInfo option"

text \<open>\<open>!v\<close> for a \<open>string | null\<close>.\<close>

fun missing :: "jsstring option \<Rightarrow> bool" where
  "missing None = True"
| "missing (Some v) = (v = [])"

definition a_or_an :: rx where
  "a_or_an = Alt (lit (str ''a'')) (lit (str ''an''))"

definition name_tail :: rx where
  "name_tail = Group (Plus (NotCls [Unit 10, Unit (ch CHR ''.''), Unit (ch CHR '','')]))"

definition namePatterns :: "regexp list" where
  "namePatterns =
    [RegExp True False (seq [lit (str ''Product''),
        Opt (Cat (Opt (Cls [WhiteSpace])) (lit (str ''Name''))), Chr (ch CHR '':''), ws, rest_of_line]),
     RegExp True False (seq [lit (str ''This is ''), a_or_an, Plus (Cls [WhiteSpace]), name_tail]),
     RegExp True False (seq [lit (str ''I can see ''), a_or_an, Plus (Cls [WhiteSpace]), name_tail]),
     RegExp True False (seq [lit (str ''The image shows ''), a_or_an, Plus (Cls [WhiteSpace]), name_tail]),
     RegExp True False (seq [lit (str ''This ''), Alt (lit (str ''is'')) (lit (str ''appears to be'')),
        Chr 32, a_or_an, Plus (Cls [WhiteSpace]), name_tail]),
     RegExp False False (Group (seq [Cls [Range 65 90],
        Plus (Cls [Range 65 90, Range 97 122, Range 48 57, Unit 32]), Chr 32,
        alts (lit (str ''cereal'')) [lit (str ''chips''), lit (str ''snacks''), lit (str ''drink''),
          lit (str ''beverage''), lit (str ''food''), lit (str ''product'')]]))]"

definition sentence_end :: regexp where
  "sentence_end = RegExp False False (Cls [Unit (ch CHR ''.''), Unit (ch CHR ''!''), Unit (ch CHR ''?'')])"

definition productName_of :: "jsstring \<Rightarrow> jsstring" where
  "productName_of responseText =
     (let name = extractFromResponse responseText (str ''product name'')
                   [str ''product'', str ''name'', str ''brand'']
      in if \<not> missing name then the name
         else (case first_capture responseText namePatterns of
                 Some v \<Rightarrow> v
               | None \<Rightarrow>
                   (case str_split responseText sentence_end of
                      [] \<Rightarrow> str ''Unknown Product''
                    | firstSentence # rest \<Rightarrow>
                        if firstSentence \<noteq> [] \<and> length firstSentence > 10
                        then trim firstSentence
                        else str ''Unknown Product'')))"

definition anything :: rx where
  "anything = Group (LazyPlus (Cls [WhiteSpace, NonWhiteSpace]))"

definition paragraphPatterns :: "regexp list" where
  "paragraphPatterns =
    [RegExp True False (seq [lit (str ''Description:''), Plus (Cls [WhiteSpace, Unit 10]), anything,
        Lookahead (alts (lit [10, 10]) [Cat (Chr 10) (Cls [Range 65 90]),
          lit (str ''Nutritional Information:''), Eol])]),
     RegExp True False (seq [lit (str ''This product is ''), anything,
        Lookahead (alts (lit [10, 10]) [Cat (Chr 10) (Cls [Range 65 90]),
          lit (str ''Nutritional Information:''), Eol])]),
     RegExp True False (seq [anything,
        Lookahead (alts (lit (10 # str ''Nutritional Information:'')) [lit (str ''Nutrition Facts:''),
          lit (str ''Calories:''), Eol])])]"

text \<open>The loop over \<open>paragraphPatterns\<close>.\<close>

fun first_paragraph :: "jsstring \<Rightarrow> regexp list \<Rightarrow> jsstring option" where
  "first_paragraph text [] = None"
| "first_paragraph text (pattern # rest) =
     (case str_match text pattern of
        Some (whole, Some captured) \<Rightarrow>
          if trim captured \<noteq> [] \<and> length captured > 20 then Some (trim captured)
          else first_paragraph text rest
      | _ \<Rightarrow> first_paragraph text rest)"

definition paragraph_separator :: regexp where
  "paragraph_separator = RegExp False False (seq [Chr 10, ws, Chr 10])"

text \<open>The loop over the paragraphs.\<close>

fun plain_paragraph :: "jsstring list \<Rightarrow> jsstring option" where
  "plain_paragraph [] = None"
| "plain_paragraph (paragraph # rest) =
     (if \<not> str_includes (toLowerCase paragraph) (str ''calorie'') \<and>
         \<not> str_includes (toLowerCase paragraph) (str ''nutrition'') \<and>
         \<not> str_includes (toLowerCase paragraph) (str ''protein'') \<and>
         \<not> str_includes (toLowerCase paragraph) (str ''fat'') \<and>
         \<not> str_includes (toLowerCase paragraph) (str ''carb'') \<and>
         length paragraph > 40
      then Some (trim paragraph)
      else plain_paragraph rest)"

definition description_of :: "jsstring \<Rightarrow> jsstring" where
  "description_of responseText =
     (let d1 = extractFromResponse responseText (str ''description'')
                 [str ''product description'', str ''about this product'', str ''overview'']
      in if \<not> missing d1 then the d1
         else (let d2 = first_paragraph responseText paragraphPatterns;
                   d3 = (if missing d2
                         then plain_paragraph (str_split responseText paragraph_separator)
                         else d2)
               in if missing d3 then responseText else the d3))"

definition or_not_available :: "jsstring option \<Rightarrow> jsstring" where
  "or_not_available v = (if missing v then str ''Not available'' else the v)"

definition parse_response :: "jsstring \<Rightarrow> Analysis" where
  "parse_response responseText =
     (let name = productName_of responseText;
          cal = extractFromResponse responseText (str ''calories'')
                  [str ''caloric content'', str ''energy''];
          fat = extractFromResponse responseText (str ''fats'')
                  [str ''fat'', str ''fat content'', str ''total fat''];
          carb = extractFromResponse responseText (str ''carbohydrates'')
                   [str ''carbs'', str ''carb'', str ''total carbohydrates''];
          prot = extractFromResponse responseText (str ''proteins'')
                   [str ''protein'', str ''protein content''];
          descr = description_of responseText
      in \<lparr>productName = name,
          description = descr,
          nutritionalInfo = Some \<lparr>calories = or_not_available cal,
             fats = or_not_available fat,
             carbs = or_not_available carb,
             proteins = or_not_available prot\<rparr>\<rparr>)"

subsection \<open>The pipeline\<close>

text \<open>The result of the catch block.\<close>

definition analysis_failed :: Analysis where
  "analysis_failed =
     \<lparr>productName = str ''Unknown Product'',
      description = str ''Unable to analyze the product image at this time. Please try again later.'',
      nutritionalInfo = None\<rparr>"

text \<open>The try block of \<open>analyzeProductImage\<close>; \<open>Inl\<close> is what reaches the catch.\<close>

definition analyze_try :: "env \<Rightarrow> jsstring \<Rightarrow> world \<Rightarrow> (jsval + Analysis) \<times> world" where
  "analyze_try e uri w =
     (if \<not> truthy (apiKey e)
      then (Inl (new_Error ''OpenAI API key is missing. Please check your configuration.''),
            console_error ''OpenAI API key is not configured'' w)
      else
        (let cacheKey = generateCacheKey (str ''analyzeProductImage'') uri;
             w1 = console_log ''Uploading image to Firebase Storage...'' w
         in case uploadImageToFirebase e uri w1 of
              (Inl err, w2) \<Rightarrow> (Inl err, w2)
            | (Inr imageUrl, w2) \<Rightarrow>
                (let w3 = console_log ''Sending image to OpenAI for analysis...'' w2
                 in case withRetry e (create_completion e imageUrl) (Some cacheKey) 5 w3 of
                      (Inl err, w4) \<Rightarrow> (Inl err, w4)
                    | (Inr completion, w4) \<Rightarrow>
                        (case responseText_of completion of
                           Inl err \<Rightarrow> (Inl err, w4)
                         | Inr responseText \<Rightarrow>
                             (Inr (parse_response responseText),
                              console_log ''OpenAI response received'' w4)))))"

definition analyzeProductImage :: "env \<Rightarrow> jsstring \<Rightarrow> world \<Rightarrow> (jsval + Analysis) \<times> world" where
  "analyzeProductImage e uri w =
     (case analyze_try e uri w of
        (Inr result, w1) \<Rightarrow> (Inr result, w1)
      | (Inl error, w1) \<Rightarrow>
          (Inr analysis_failed, console_error ''Error analyzing product image:'' w1))"

section \<open>Sample inputs\<close>

text \<open>
  The module as it is right after loading, a clock that advances one second per read
  with a random generator that always gives one half, and three operations: one that
  always fails, one that always returns \<open>false\<close>, one that always returns a string.
\<close>

definition fresh_world :: world where
  "fresh_world = \<lparr>responseCache = Map.empty, firestore = [], asyncStorage = Map.empty,
     console = [], ticks = 0, draws = 0, fn_calls = 0,
     timeouts = [], fetched = [], uploaded = [], file_reads = []\<rparr>"

definition steady_env :: env where
  "steady_env = \<lparr>clock = (\<lambda>i. 1000 * int i), random = (\<lambda>i. 1 / 2),
     String_of = (\<lambda>v. case v of JStr s \<Rightarrow> Inr s | _ \<Rightarrow> Inr (str ''[object Object]'')),
     apiKey = JStr (str ''sk-test''),
     fetch_blob = (\<lambda>uri. Inr [255, 216, 255]),
     uploadBytes = (\<lambda>name blob. None),
     getDownloadURL = (\<lambda>name. Inr (str ''https://storage.example/food_images/a.jpg'')),
     readAsStringAsync = (\<lambda>uri. Inr (str ''/9j/'')),
     create_completion = (\<lambda>url i. Inl (new_Error ''503'')),
     addDoc_fails = None, getDocs_fails = None, getItem_fails = None, setItem_fails = None\<rparr>"

definition failing_operation :: "nat \<Rightarrow> jsval + jsval" where
  "failing_operation i = Inl (new_Error ''503'')"

definition false_operation :: "nat \<Rightarrow> jsval + jsval" where
  "false_operation i = Inr (JBool False)"





text \<open>A text of two lines: a dash item for the key \<open>a\<close>, then \<open>b:2\<close>.\<close>

definition two_line_text :: jsstring where
  "two_line_text = str ''-a 1'' @ [10] @ str ''b:2''"

text \<open>An outside world without the API credential, and one whose model answers.\<close>

definition no_key_env :: env where
  "no_key_env = steady_env\<lparr>apiKey := JUndefined\<rparr>"

definition sample_completion :: jsval where
  "sample_completion =
     JObj [(''choices'', JArr [JObj [(''message'', JObj [(''content'',
        JStr (str ''Product Name: Oat Bar'' @ [10] @ str ''Calories: 250kcal''))])]])]"

definition answering_env :: env where
  "answering_env = steady_env\<lparr>create_completion := (\<lambda>url i. Inr sample_completion)\<rparr>"

section \<open>Properties of the resilient call executor\<close>

lemma next_attempt_fields [simp]:
  "fn_calls (next_attempt e retries w) = Suc (fn_calls w)"
  "draws (next_attempt e retries w) = Suc (draws w)"
  "ticks (next_attempt e retries w) = ticks w"
  "responseCache (next_attempt e retries w) = responseCache w"
  "timeouts (next_attempt e retries w) = timeouts w @ [backoff (Suc retries) (random e (draws w))]"
  by (simp_all add: next_attempt_def Let_def getBackoffTime_def Math_random_def
      console_error_def console_log_def)

lemma map_upt_shift: "map f [0..<Suc m] = f 0 # map (\<lambda>i. f (Suc i)) [0..<m]"
  by (simp only: upt_conv_Cons[OF zero_less_Suc] list.map map_Suc_upt[symmetric] map_map o_def)

lemma retry_loop_Inr:
  "fn (fn_calls w) = Inr result \<Longrightarrow>
   retry_loop e fn cacheKey maxRetries retries w =
     (Inr result,
      if key_given cacheKey
      then setCachedResponse e (the cacheKey) result (w\<lparr>fn_calls := Suc (fn_calls w)\<rparr>)
      else w\<lparr>fn_calls := Suc (fn_calls w)\<rparr>)"
  by (subst retry_loop.simps) (simp add: Let_def)

lemma retry_loop_nullish:
  "fn (fn_calls w) = Inl error \<Longrightarrow> nullish error \<Longrightarrow>
   retry_loop e fn cacheKey maxRetries retries w = (Inl TypeError, w\<lparr>fn_calls := Suc (fn_calls w)\<rparr>)"
  by (subst retry_loop.simps) (simp add: Let_def)

lemma retry_loop_giveup:
  "fn (fn_calls w) = Inl error \<Longrightarrow> \<not> nullish error \<Longrightarrow> maxRetries \<le> int retries \<Longrightarrow>
   retry_loop e fn cacheKey maxRetries retries w =
     (Inl error, w\<lparr>fn_calls := Suc (fn_calls w),
        console := console w @ [(ERROR, ''API call error:''), (ERROR, ''Maximum retries reached, giving up.'')]\<rparr>)"
  by (subst retry_loop.simps) (simp add: Let_def console_error_def)

lemma retry_loop_retry:
  "fn (fn_calls w) = Inl error \<Longrightarrow> \<not> nullish error \<Longrightarrow> int retries < maxRetries \<Longrightarrow>
   retry_loop e fn cacheKey maxRetries retries w =
     retry_loop e fn cacheKey maxRetries (Suc retries)
       (next_attempt e retries w)"
  by (subst retry_loop.simps)
     (simp add: Let_def next_attempt_def split_def)

lemma retry_loop_timeouts:
  "\<exists>m. (m = 0 \<or> int (retries + m) \<le> maxRetries) \<and>
       timeouts (snd (retry_loop e fn k maxRetries retries w)) =
         timeouts w @ map (\<lambda>i. backoff (retries + 1 + i) (random e (draws w + i))) [0..<m]"
proof (induction "nat (maxRetries - int retries)" arbitrary: retries w)
  case 0
  then have le: "maxRetries \<le> int retries" by simp
  have "timeouts (snd (retry_loop e fn k maxRetries retries w)) = timeouts w"
  proof (cases "fn (fn_calls w)")
    case (Inr result)
    then show ?thesis by (simp add: retry_loop_Inr setCachedResponse_def Date_now_def)
  next
    case (Inl error)
    then show ?thesis using le
      by (cases "nullish error") (simp_all add: retry_loop_nullish retry_loop_giveup)
  qed
  then show ?case by (intro exI[of _ 0]) simp
next
  case (Suc n)
  then have lt: "int retries < maxRetries" by simp
  show ?case
  proof (cases "fn (fn_calls w)")
    case (Inr result)
    then have "timeouts (snd (retry_loop e fn k maxRetries retries w)) = timeouts w"
      by (simp add: retry_loop_Inr setCachedResponse_def Date_now_def)
    then show ?thesis by (intro exI[of _ 0]) simp
  next
    case (Inl error)
    show ?thesis
    proof (cases "nullish error")
      case True
      with Inl have "timeouts (snd (retry_loop e fn k maxRetries retries w)) = timeouts w"
        by (simp add: retry_loop_nullish)
      then show ?thesis by (intro exI[of _ 0]) simp
    next
      case False
      let ?w = "next_attempt e retries w"
      have n: "n = nat (maxRetries - int (Suc retries))" using Suc.hyps(2) by simp
      obtain m where m: "m = 0 \<or> int (Suc retries + m) \<le> maxRetries"
        "timeouts (snd (retry_loop e fn k maxRetries (Suc retries) ?w)) =
         timeouts ?w @ map (\<lambda>i. backoff (Suc retries + 1 + i) (random e (draws ?w + i))) [0..<m]"
        using Suc.hyps(1)[OF n, of ?w] by blast
      have "timeouts (snd (retry_loop e fn k maxRetries retries w)) =
         timeouts w @ map (\<lambda>i. backoff (retries + 1 + i) (random e (draws w + i))) [0..<Suc m]"
        unfolding retry_loop_retry[where fn=fn and w=w, OF Inl False lt] m(2) map_upt_shift by simp
      moreover have "int (retries + Suc m) \<le> maxRetries" using m(1) lt by auto
      ultimately show ?thesis by blast
    qed
  qed
qed

lemma backoff_window:
  assumes "0 \<le> u" "u < 1"
  shows "2 ^ n * (1 / 2) * 1000 \<le> 2 ^ n * (1 / 2 + u) * 1000"
    and "2 ^ n * (1 / 2 + u) * 1000 \<le> 2 ^ n * (3 / 2) * (1000::rat)"
    and "backoff n u = min (2 ^ n * (1 / 2 + u) * 1000) 30000"
  using assms by (simp_all add: backoff_def Let_def)

lemma retry_loop_calls: "fn_calls w < fn_calls (snd (retry_loop e fn k maxRetries retries w))"
proof (induction "nat (maxRetries - int retries)" arbitrary: retries w)
  case 0
  then have le: "maxRetries \<le> int retries" by simp
  show ?case
  proof (cases "fn (fn_calls w)")
    case (Inr result)
    then show ?thesis by (simp add: retry_loop_Inr setCachedResponse_def Date_now_def)
  next
    case (Inl error)
    then show ?thesis using le
      by (cases "nullish error") (simp_all add: retry_loop_nullish retry_loop_giveup)
  qed
next
  case (Suc n)
  then have lt: "int retries < maxRetries" by simp
  show ?case
  proof (cases "fn (fn_calls w)")
    case (Inr result)
    then show ?thesis by (simp add: retry_loop_Inr setCachedResponse_def Date_now_def)
  next
    case (Inl error)
    show ?thesis
    proof (cases "nullish error")
      case True
      with Inl show ?thesis by (simp add: retry_loop_nullish)
    next
      case False
      have n: "n = nat (maxRetries - int (Suc retries))" using Suc.hyps(2) by simp
      show ?thesis
        unfolding retry_loop_retry[where fn=fn and w=w, OF Inl False lt]
        using Suc.hyps(1)[OF n, of "next_attempt e retries w"]
        by simp
    qed
  qed
qed

lemma retry_loop_stores:
  "retry_loop e fn k maxRetries retries w = (Inr v, w1) \<Longrightarrow> key_given k \<Longrightarrow>
   responseCache w1 (the k) = Some \<lparr>timestamp = clock e (ticks w), response = v\<rparr>"
proof (induction "nat (maxRetries - int retries)" arbitrary: retries w)
  case 0
  then have le: "maxRetries \<le> int retries" by simp
  show ?case
  proof (cases "fn (fn_calls w)")
    case (Inr result)
    then show ?thesis using 0(2,3) by (auto simp add: retry_loop_Inr setCachedResponse_def Date_now_def)
  next
    case (Inl error)
    then show ?thesis using le 0(2)
      by (cases "nullish error") (simp_all add: retry_loop_nullish retry_loop_giveup)
  qed
next
  case (Suc n)
  then have lt: "int retries < maxRetries" by simp
  show ?case
  proof (cases "fn (fn_calls w)")
    case (Inr result)
    then show ?thesis using Suc(3,4) by (auto simp add: retry_loop_Inr setCachedResponse_def Date_now_def)
  next
    case (Inl error)
    show ?thesis
    proof (cases "nullish error")
      case True
      with Inl show ?thesis using Suc(3) by (simp add: retry_loop_nullish)
    next
      case False
      have n: "n = nat (maxRetries - int (Suc retries))" using Suc.hyps(2) by simp
      show ?thesis
        using Suc.hyps(1)[OF n _ Suc(4), of "next_attempt e retries w"]
          Suc(3)
        unfolding retry_loop_retry[where fn=fn and w=w, OF Inl False lt]
        by simp
    qed
  qed
qed


lemma getCachedResponse_cases:
  "getCachedResponse e k w = (c, wa) \<Longrightarrow>
   fn_calls wa = fn_calls w \<and> timeouts wa = timeouts w \<and> responseCache wa = responseCache w \<and>
   (c = JNull \<or> (\<exists>en. responseCache w k = Some en \<and> response en = c \<and>
        clock e (ticks w) - timestamp en < CACHE_EXPIRY \<and>
        wa = console_log ''Using cached response for:'' (w\<lparr>ticks := Suc (ticks w)\<rparr>)))"
  by (auto simp: getCachedResponse_def Date_now_def console_log_def Let_def
      split: option.splits if_splits)

lemma getCachedResponse_live:
  "responseCache w k = Some en \<Longrightarrow> clock e (ticks w) - timestamp en < CACHE_EXPIRY \<Longrightarrow>
   getCachedResponse e k w =
     (response en, console_log ''Using cached response for:'' (w\<lparr>ticks := Suc (ticks w)\<rparr>))"
  by (simp add: getCachedResponse_def Date_now_def)


lemma withRetry_miss:
  assumes "k \<noteq> []" "\<not> truthy (fst (getCachedResponse e k w))"
  shows "withRetry e fn (Some k) maxRetries w =
           retry_loop e fn (Some k) maxRetries 0 (snd (getCachedResponse e k w))"
  using assms by (simp add: withRetry_def split_def)

lemma withRetry_calls_on_miss:
  assumes "k \<noteq> []" "\<not> truthy (fst (getCachedResponse e k w))"
  shows "fn_calls w < fn_calls (snd (withRetry e fn (Some k) maxRetries w))"
proof -
  obtain c wa where c: "getCachedResponse e k w = (c, wa)" by (cases "getCachedResponse e k w")
  from getCachedResponse_cases[OF c] have "fn_calls wa = fn_calls w" by simp
  with retry_loop_calls[of wa e fn "Some k" maxRetries 0] show ?thesis
    unfolding withRetry_miss[OF assms] c by simp
qed


lemma falsy_values:
  "\<not> truthy JNull" "\<not> truthy (JBool False)" "\<not> truthy (JNum 0)" "\<not> truthy (JStr [])"
  by simp_all

lemma str_k: "str ''k'' \<noteq> []"
  by (simp add: str_def)

lemma first_call:
  "fn 0 = Inr v \<Longrightarrow>
   withRetry steady_env fn (Some (str ''k'')) 5 fresh_world =
    (Inr v,
     fresh_world\<lparr>fn_calls := 1, ticks := 1,
        responseCache := [str ''k'' \<mapsto> \<lparr>timestamp = 0, response = v\<rparr>]\<rparr>)"
  by (simp add: withRetry_def getCachedResponse_def fresh_world_def retry_loop_Inr str_k
      setCachedResponse_def Date_now_def steady_env_def)

lemma steady_random: "\<forall>i. 0 \<le> random steady_env i \<and> random steady_env i < 1"
  by (simp add: steady_env_def)

lemma failing_run:
  "timeouts (snd (withRetry steady_env failing_operation None 2 fresh_world)) = [2000, 4000]"
  by (simp add: withRetry_def retry_loop_retry retry_loop_giveup failing_operation_def new_Error_def
      fresh_world_def steady_env_def backoff_def)

text \<open>
  C2.  Whatever the operation does, the delays \<open>withRetry\<close> waits are, in order, the
  values of \<open>getBackoffTime\<close> for retry 1, 2, ... and there are at most \<open>maxRetries\<close> of
  them.  With \<open>Math.random()\<close> in \<open>[0, 1)\<close>, the delay before retry \<open>n\<close> is
  \<open>2^n * (0.5 + u) * 1000\<close> capped at 30000 ms, where the uncapped value lies between
  \<open>2^n * 0.5 * 1000\<close> and \<open>2^n * 1.5 * 1000\<close>; the delay never exceeds 30000, and up to
  the default of five retries the delay itself lies in that interval.
\<close>

theorem withRetry_backoff_window:
  assumes "\<forall>i. 0 \<le> random e i \<and> random e i < 1"
  shows "\<exists>ts. timeouts (snd (withRetry e fn cacheKey maxRetries w)) = timeouts w @ ts \<and>
           (ts = [] \<or> int (length ts) \<le> maxRetries) \<and>
           (\<forall>n. 1 \<le> n \<and> n \<le> length ts \<longrightarrow>
              (\<exists>u. 0 \<le> u \<and> u < 1 \<and> ts ! (n - 1) = backoff n u \<and>
                   backoff n u = min (2 ^ n * (1 / 2 + u) * 1000) 30000 \<and>
                   2 ^ n * (1 / 2) * 1000 \<le> 2 ^ n * (1 / 2 + u) * 1000 \<and>
                   2 ^ n * (1 / 2 + u) * 1000 \<le> 2 ^ n * (3 / 2) * 1000) \<and>
              ts ! (n - 1) \<le> 30000 \<and>
              (n \<le> 5 \<longrightarrow> 2 ^ n * (1 / 2) * 1000 \<le> ts ! (n - 1) \<and>
                          ts ! (n - 1) \<le> 2 ^ n * (3 / 2) * 1000))"
proof -
  have start: "(\<exists>w0. withRetry e fn cacheKey maxRetries w = retry_loop e fn cacheKey maxRetries 0 w0 \<and>
                  timeouts w0 = timeouts w) \<or>
               timeouts (snd (withRetry e fn cacheKey maxRetries w)) = timeouts w"
  proof (cases "key_given cacheKey")
    case False
    then show ?thesis by (auto simp: withRetry_def)
  next
    case True
    obtain c wa where c: "getCachedResponse e (the cacheKey) w = (c, wa)"
      by (cases "getCachedResponse e (the cacheKey) w")
    from getCachedResponse_cases[OF c] have "timeouts wa = timeouts w" by simp
    with True c show ?thesis by (cases "truthy c") (auto simp: withRetry_def)
  qed
  have "\<exists>m d. (m = 0 \<or> int m \<le> maxRetries) \<and>
          timeouts (snd (withRetry e fn cacheKey maxRetries w)) =
            timeouts w @ map (\<lambda>i. backoff (Suc i) (random e (d + i))) [0..<m]"
    using start
  proof
    assume "\<exists>w0. withRetry e fn cacheKey maxRetries w = retry_loop e fn cacheKey maxRetries 0 w0 \<and>
                  timeouts w0 = timeouts w"
    then obtain w0 where w0: "withRetry e fn cacheKey maxRetries w = retry_loop e fn cacheKey maxRetries 0 w0"
      "timeouts w0 = timeouts w" by blast
    from retry_loop_timeouts[of 0 maxRetries e fn cacheKey w0] show ?thesis
      unfolding w0 by auto
  next
    assume "timeouts (snd (withRetry e fn cacheKey maxRetries w)) = timeouts w"
    then show ?thesis by (intro exI[of _ 0]) simp
  qed
  then obtain m d where m: "m = 0 \<or> int m \<le> maxRetries"
    and ts: "timeouts (snd (withRetry e fn cacheKey maxRetries w)) =
            timeouts w @ map (\<lambda>i. backoff (Suc i) (random e (d + i))) [0..<m]" by blast
  let ?ts = "map (\<lambda>i. backoff (Suc i) (random e (d + i))) [0..<m]"
  have each: "(\<exists>u. 0 \<le> u \<and> u < 1 \<and> ?ts ! (n - 1) = backoff n u \<and>
                   backoff n u = min (2 ^ n * (1 / 2 + u) * 1000) 30000 \<and>
                   2 ^ n * (1 / 2) * 1000 \<le> 2 ^ n * (1 / 2 + u) * 1000 \<and>
                   2 ^ n * (1 / 2 + u) * 1000 \<le> 2 ^ n * (3 / 2) * 1000) \<and>
              ?ts ! (n - 1) \<le> 30000 \<and>
              (n \<le> 5 \<longrightarrow> 2 ^ n * (1 / 2) * 1000 \<le> ?ts ! (n - 1) \<and>
                          ?ts ! (n - 1) \<le> 2 ^ n * (3 / 2) * 1000)"
    if n: "1 \<le> n" "n \<le> length ?ts" for n
  proof -
    let ?u = "random e (d + (n - 1))"
    have u: "0 \<le> ?u" "?u < 1" using assms by simp_all
    have lt: "n - 1 < m" and suc: "Suc (n - 1) = n" using n by simp_all
    have nth: "?ts ! (n - 1) = backoff n ?u"
      using lt by (simp add: suc del: One_nat_def)
    note bw = backoff_window[OF u, of n]
    have cap: "backoff n ?u \<le> 30000" by (simp add: backoff_def Let_def)
    have small: "2 ^ n * (1 / 2) * 1000 \<le> backoff n ?u" if "n \<le> 5"
    proof -
      have "(2::rat) ^ n \<le> 2 ^ 5" using that by (intro power_increasing) simp_all
      then have "2 ^ n * (1 / 2) * 1000 \<le> (30000::rat)" by simp
      with bw(1) show ?thesis unfolding bw(3) by (intro min.boundedI)
    qed
    have upper: "backoff n ?u \<le> 2 ^ n * (3 / 2) * 1000"
      unfolding bw(3) using bw(2) by (rule min.coboundedI1)
    show ?thesis
      unfolding nth using u bw cap small upper by blast
  qed
  have "?ts = [] \<or> int (length ?ts) \<le> maxRetries" using m by auto
  with ts each show ?thesis by blast
qed


theorem withRetry_backoff_window_witness:
  "(\<forall>i. 0 \<le> random steady_env i \<and> random steady_env i < 1) \<and>
   timeouts (snd (withRetry steady_env failing_operation None 2 fresh_world)) = [2000, 4000] \<and>
   (\<exists>ts. timeouts (snd (withRetry steady_env failing_operation None 2 fresh_world)) =
            timeouts fresh_world @ ts \<and> (ts = [] \<or> int (length ts) \<le> 2))"
proof -
  from withRetry_backoff_window[OF steady_random, of failing_operation None 2 fresh_world]
  obtain ts where "timeouts (snd (withRetry steady_env failing_operation None 2 fresh_world)) =
            timeouts fresh_world @ ts" "ts = [] \<or> int (length ts) \<le> 2"
    by blast
  with steady_random failing_run show ?thesis by blast
qed

text \<open>
  C10.  When an execution with a non-empty key returns a falsy result (null, false, 0,
  the empty string, also undefined and NaN), the result is stored under the key; a
  later lookup inside the expiry window returns the stored value, yet \<open>withRetry\<close> does
  not take it for a hit and invokes the operation again.
\<close>

theorem falsy_result_is_stored_but_never_hit:
  assumes "k \<noteq> []"
    and "withRetry e fn (Some k) maxRetries w = (Inr v, w1)"
    and "\<not> truthy v"
    and "responseCache w2 k = responseCache w1 k"
  shows "(\<exists>t. responseCache w1 k = Some \<lparr>timestamp = t, response = v\<rparr> \<and>
              (clock e (ticks w2) - t < CACHE_EXPIRY \<longrightarrow> fst (getCachedResponse e k w2) = v)) \<and>
         fn_calls w2 < fn_calls (snd (withRetry e fn2 (Some k) maxRetries2 w2))"
proof -
  obtain c wa where c: "getCachedResponse e k w = (c, wa)" by (cases "getCachedResponse e k w")
  have nt: "\<not> truthy c"
  proof
    assume "truthy c"
    with assms(1,2) c have "v = c" by (simp add: withRetry_def)
    with \<open>truthy c\<close> assms(3) show False by simp
  qed
  with assms(1,2) c have loop: "retry_loop e fn (Some k) maxRetries 0 wa = (Inr v, w1)"
    by (simp add: withRetry_def)
  have st: "responseCache w1 k = Some \<lparr>timestamp = clock e (ticks wa), response = v\<rparr>"
    using retry_loop_stores[OF loop] assms(1) by simp
  have live: "clock e (ticks w2) - clock e (ticks wa) < CACHE_EXPIRY \<longrightarrow> fst (getCachedResponse e k w2) = v"
    using getCachedResponse_live[of w2 k _ e] st assms(4) by auto
  have "\<not> truthy (fst (getCachedResponse e k w2))"
  proof -
    obtain c2 wb where c2: "getCachedResponse e k w2 = (c2, wb)" by (cases "getCachedResponse e k w2")
    from getCachedResponse_cases[OF c2] st assms(3,4) show ?thesis by (auto simp: c2)
  qed
  from withRetry_calls_on_miss[OF assms(1) this] st live show ?thesis by blast
qed


theorem falsy_result_is_stored_but_never_hit_witness:
  "str ''k'' \<noteq> [] \<and>
   withRetry steady_env false_operation (Some (str ''k'')) 5 fresh_world =
     (Inr (JBool False), snd (withRetry steady_env false_operation (Some (str ''k'')) 5 fresh_world)) \<and>
   \<not> truthy (JBool False) \<and>
   fn_calls (snd (withRetry steady_env false_operation (Some (str ''k'')) 5 fresh_world)) = 1 \<and>
   fn_calls (snd (withRetry steady_env false_operation (Some (str ''k'')) 5 fresh_world))
     < fn_calls (snd (withRetry steady_env false_operation (Some (str ''k'')) 5
         (snd (withRetry steady_env false_operation (Some (str ''k'')) 5 fresh_world))))"
proof -
  have fc: "withRetry steady_env false_operation (Some (str ''k'')) 5 fresh_world =
     (Inr (JBool False), snd (withRetry steady_env false_operation (Some (str ''k'')) 5 fresh_world))"
    by (simp add: first_call[of false_operation "JBool False"] false_operation_def)
  have one: "fn_calls (snd (withRetry steady_env false_operation (Some (str ''k'')) 5 fresh_world)) = 1"
    by (simp add: first_call[of false_operation "JBool False"] false_operation_def)
  from falsy_result_is_stored_but_never_hit[OF str_k fc _ refl, of false_operation 5] fc one str_k
  show ?thesis by simp
qed






section \<open>Properties of the media ingestion\<close>







section \<open>Properties of the history store\<close>





lemma save_local_unchanged:
  "fst (save_local e userId pd data w) = Inl err \<Longrightarrow>
   asyncStorage (snd (save_local e userId pd data w)) = asyncStorage w"
  by (auto simp: save_local_def Date_now_def console_log_def Let_def
      split: option.splits stored.splits if_splits)

lemma save_local_firestore: "firestore (snd (save_local e userId pd data w)) = firestore w"
  by (auto simp: save_local_def Date_now_def console_log_def Let_def
      split: option.splits stored.splits sum.splits)

























section \<open>Properties of the field extractor\<close>

lemma first_capture_nonempty: "first_capture text ps = Some v \<Longrightarrow> v \<noteq> []"
  by (induction ps) (auto split: option.splits prod.splits if_splits)

lemma trim_nonempty:
  assumes "\<exists>c\<in>set s. \<not> is_space c"
  shows "trim s \<noteq> []"
proof -
  have "s = takeWhile is_space s @ dropWhile is_space s" by simp
  moreover have "\<forall>c\<in>set (takeWhile is_space s). is_space c" by (auto dest: set_takeWhileD)
  ultimately have "\<exists>c\<in>set (dropWhile is_space s). \<not> is_space c"
    using assms by (metis Un_iff set_append)
  then have "\<exists>c\<in>set (rev (dropWhile is_space s)). \<not> is_space c" by simp
  then have "dropWhile is_space (rev (dropWhile is_space s)) \<noteq> []"
    by (simp only: dropWhile_eq_Nil_conv) blast
  then show ?thesis by (simp add: trim_def)
qed

lemma is_prefix_subset: "is_prefix p s \<Longrightarrow> set p \<subseteq> set s"
  by (induction p s rule: is_prefix.induct) auto

lemma str_includes_subset: "str_includes s k \<Longrightarrow> set k \<subseteq> set s"
  by (induction s) (auto dest!: is_prefix_subset)

lemma toLower_space: "is_space (toLower_unit c) \<longleftrightarrow> is_space c"
  by (auto simp: toLower_unit_def is_space_def)

lemma includes_lower_nonblank:
  assumes "str_includes (toLowerCase s) (toLowerCase k)" "\<exists>c\<in>set k. \<not> is_space c"
  shows "\<exists>c\<in>set s. \<not> is_space c"
proof -
  from assms(2) obtain c where c: "c \<in> set k" "\<not> is_space c" by blast
  then have "toLower_unit c \<in> set (toLowerCase k)" by (simp add: toLowerCase_def)
  with str_includes_subset[OF assms(1)] have "toLower_unit c \<in> set (toLowerCase s)" by blast
  then obtain d where "d \<in> set s" "toLower_unit d = toLower_unit c"
    by (auto simp: toLowerCase_def)
  with c(2) show ?thesis using toLower_space by metis
qed

lemma digit_not_space: "48 \<le> c \<Longrightarrow> c \<le> 57 \<Longrightarrow> \<not> is_space c"
  by (auto simp: is_space_def)

lemma ms_starts_with_digit:
  "ms ic ml (Group (Cat (Cat (Plus (Cls [Digit])) r1) r2)) (prev, c # s, None) \<noteq> []
   \<Longrightarrow> 48 \<le> c \<and> c \<le> 57"
  by (auto simp: step_def split: if_splits)

lemma search_starts_with_digit:
  "search (RegExp ic ml (Group (Cat (Cat (Plus (Cls [Digit])) r1) r2))) prev s = Some (whole, cap)
   \<Longrightarrow> whole \<noteq> [] \<Longrightarrow> 48 \<le> hd whole \<and> hd whole \<le> 57"
proof (induction s arbitrary: prev)
  case Nil
  then show ?case by (auto simp del: ms.simps split: list.splits)
next
  case (Cons c s)
  let ?R = "Group (Cat (Cat (Plus (Cls [Digit])) r1) r2)"
  show ?case
  proof (cases "ms ic ml ?R (prev, c # s, None)")
    case Nil
    with Cons.prems have "search (RegExp ic ml ?R) (Some c) s = Some (whole, cap)"
      by (simp del: ms.simps)
    from Cons.IH[OF this Cons.prems(2)] show ?thesis .
  next
    case (Cons st sts)
    then have "ms ic ml ?R (prev, c # s, None) \<noteq> []" by simp
    from ms_starts_with_digit[OF this] have d: "48 \<le> c \<and> c \<le> 57" .
    from Cons Cons.prems(1) have "whole = consumed (c # s) (rest_of st)"
      by (simp del: ms.simps)
    with Cons.prems(2) have "hd whole = c"
      by (cases "length (c # s) - length (rest_of st)") (auto simp: consumed_def)
    with d show ?thesis by simp
  qed
qed

lemma first_whole_numberWithUnit_nonempty:
  assumes "first_whole sentence numberWithUnit = Some v"
  shows "v \<noteq> []"
proof -
  have one: "trim whole \<noteq> []"
    if "str_match sentence (RegExp ic ml (Group (Cat (Cat (Plus (Cls [Digit])) r1) r2))) = Some (whole, cap)"
      "whole \<noteq> []" for ic ml r1 r2 whole cap
  proof -
    from search_starts_with_digit[OF that(1)[unfolded str_match_def] that(2)]
    have "\<not> is_space (hd whole)" using digit_not_space by blast
    moreover have "hd whole \<in> set whole" using that(2) by simp
    ultimately show ?thesis using trim_nonempty by blast
  qed
  from assms show ?thesis
    unfolding numberWithUnit_def number_def digits_def seq.simps first_whole.simps
    by (auto split: option.splits prod.splits if_splits dest: one)
qed

lemma scan_sentences_nonempty:
  "scan_sentences key ss = Some v \<Longrightarrow> \<exists>c\<in>set key. \<not> is_space c \<Longrightarrow> v \<noteq> []"
proof (induction ss)
  case Nil
  then show ?case by simp
next
  case (Cons sentence rest)
  show ?case
  proof (cases "str_includes (toLowerCase sentence) (toLowerCase key)")
    case False
    with Cons show ?thesis by simp
  next
    case True
    show ?thesis
    proof (cases "first_whole sentence numberWithUnit")
      case (Some u)
      with True Cons.prems(1) have "v = u" by simp
      with first_whole_numberWithUnit_nonempty[OF Some] show ?thesis by simp
    next
      case None
      show ?thesis
      proof (cases "length sentence < 100")
        case l: True
        with True None Cons.prems(1) have "v = trim sentence" by simp
        with trim_nonempty[OF includes_lower_nonblank[OF True Cons.prems(2)]] show ?thesis by simp
      next
        case l: False
        with True None Cons show ?thesis by simp
      qed
    qed
  qed
qed

lemma extract_key_nonempty:
  "extract_key text key = Some v \<Longrightarrow> \<exists>c\<in>set key. \<not> is_space c \<Longrightarrow> v \<noteq> []"
  by (auto simp: extract_key_def sentence_scan_def split: option.splits if_splits
      dest: first_capture_nonempty scan_sentences_nonempty)

lemma extract_keys_nonempty:
  "extract_keys text keys = Some v \<Longrightarrow> \<forall>key\<in>set keys. \<exists>c\<in>set key. \<not> is_space c \<Longrightarrow> v \<noteq> []"
  by (induction keys) (auto split: option.splits dest: extract_key_nonempty)

lemma extract_keys_None:
  "extract_keys text keys = None \<longleftrightarrow> (\<forall>key\<in>set keys. extract_key text key = None)"
  by (induction keys) (auto split: option.splits)

lemma extract_key_None:
  "extract_key text key = None \<longleftrightarrow>
     first_capture text (patterns key) = None \<and> first_capture text (bulletPatterns key) = None \<and>
     sentence_scan text key = None"
  by (auto simp: extract_key_def split: option.splits)

lemma extract_keys_first:
  assumes "i < length keys" "\<forall>j<i. extract_key text (keys ! j) = None"
  shows "extract_keys text keys =
           (case extract_key text (keys ! i) of Some v \<Rightarrow> Some v
            | None \<Rightarrow> extract_keys text (drop (Suc i) keys))"
  using assms
proof (induction keys arbitrary: i)
  case Nil
  then show ?case by simp
next
  case (Cons k ks)
  show ?case
  proof (cases i)
    case 0
    then show ?thesis by (simp split: option.splits)
  next
    case (Suc n)
    with Cons.prems have "extract_key text k = None" by auto
    moreover have "n < length ks" "\<forall>j<n. extract_key text (ks ! j) = None"
      using Cons.prems Suc by auto
    ultimately show ?thesis using Cons.IH[of n] Suc by (simp split: option.splits)
  qed
qed

text \<open>The definitions that evaluating the extractor on a given text unfolds.\<close>

lemmas ev = str_def ch_def extractFromResponse_def extract_key_def patterns_def bulletPatterns_def
  sentence_scan_def str_match_def ws_def rest_of_line_def step_def rest_of_def progress_def
  consumed_def is_space_def is_line_terminator_def char_eq_def variants_def toUpper_unit_def
  toLower_unit_def toLowerCase_def trim_def numberWithUnit_def digits_def number_def
  sentence_separator_def str_split_def

lemma example_calories:
  "extractFromResponse (str ''Calories: 250kcal'') (str ''calories'') [] = Some (str ''250kcal'')"
  by (simp add: ev)

lemma example_no_data:
  "extractFromResponse (str ''no data here'') (str ''calories'') [] = None"
  by (simp add: ev)

lemma two_line_facts:
  "first_capture two_line_text (patterns (str ''a'')) = None"
  "first_capture two_line_text (bulletPatterns (str ''a'')) = Some (str ''1'')"
  "first_capture two_line_text (patterns (str ''b'')) = Some (str ''2'')"
  by (simp_all add: ev two_line_text_def)

lemma plain_samples: "plain_key (str ''calories'')" "plain_key (str ''a'')" "plain_key (str ''b'')"
  by (simp_all add: plain_key_def str_def)

text \<open>
  C6.  On \<open>Calories: 250kcal\<close> with the key \<open>calories\<close> the extractor returns
  \<open>250kcal\<close>, on \<open>no data here\<close> it returns null.  In general it returns null
  exactly when, for every key, no pattern, no bullet pattern and no sentence gives a
  value; and as long as no key is blank, a value it returns is never the empty string.
\<close>

theorem extract_examples_and_absence:
  "extractFromResponse (str ''Calories: 250kcal'') (str ''calories'') [] = Some (str ''250kcal'') \<and>
   extractFromResponse (str ''no data here'') (str ''calories'') [] = None \<and>
   (list_all plain_key (primaryKey # alternateKeys) \<longrightarrow>
      (extractFromResponse text primaryKey alternateKeys = None \<longleftrightarrow>
         (\<forall>key\<in>set (primaryKey # alternateKeys).
            first_capture text (patterns key) = None \<and>
            first_capture text (bulletPatterns key) = None \<and>
            sentence_scan text key = None))) \<and>
   (list_all plain_key (primaryKey # alternateKeys) \<and>
    (\<forall>key\<in>set (primaryKey # alternateKeys). \<exists>c\<in>set key. \<not> is_space c) \<longrightarrow>
      extractFromResponse text primaryKey alternateKeys \<noteq> Some [])"
proof (intro conjI impI)
  show "extractFromResponse (str ''Calories: 250kcal'') (str ''calories'') [] = Some (str ''250kcal'')"
    by (rule example_calories)
  show "extractFromResponse (str ''no data here'') (str ''calories'') [] = None"
    by (rule example_no_data)
  show "extractFromResponse text primaryKey alternateKeys = None \<longleftrightarrow>
         (\<forall>key\<in>set (primaryKey # alternateKeys).
            first_capture text (patterns key) = None \<and>
            first_capture text (bulletPatterns key) = None \<and>
            sentence_scan text key = None)"
    unfolding extractFromResponse_def extract_keys_None extract_key_None ..
next
  assume a: "list_all plain_key (primaryKey # alternateKeys) \<and>
    (\<forall>key\<in>set (primaryKey # alternateKeys). \<exists>c\<in>set key. \<not> is_space c)"
  show "extractFromResponse text primaryKey alternateKeys \<noteq> Some []"
  proof
    assume "extractFromResponse text primaryKey alternateKeys = Some []"
    then have "extract_keys text (primaryKey # alternateKeys) = Some []"
      by (simp add: extractFromResponse_def)
    from extract_keys_nonempty[OF this] a show False by blast
  qed
qed

theorem extract_examples_and_absence_witness:
  "list_all plain_key [str ''calories''] \<and>
   (\<exists>c. c \<in> set (str ''calories'') \<and> \<not> is_space c) \<and>
   extractFromResponse (str ''no data here'') (str ''calories'') [] = None \<and>
   first_capture (str ''no data here'') (patterns (str ''calories'')) = None \<and>
   first_capture (str ''no data here'') (bulletPatterns (str ''calories'')) = None \<and>
   sentence_scan (str ''no data here'') (str ''calories'') = None \<and>
   extractFromResponse (str ''Calories: 250kcal'') (str ''calories'') [] \<noteq> Some []"
proof -
  have p: "list_all plain_key [str ''calories'']" by (simp add: plain_samples)
  have n: "\<exists>c. c \<in> set (str ''calories'') \<and> \<not> is_space c"
    by (rule exI[of _ 99]) (simp add: str_def is_space_def)
  then have n': "\<forall>key\<in>set [str ''calories'']. \<exists>c\<in>set key. \<not> is_space c" by auto
  from extract_examples_and_absence[of "str ''calories''" "[]" "str ''no data here''"] p
  have "extractFromResponse (str ''no data here'') (str ''calories'') [] = None"
    and "first_capture (str ''no data here'') (patterns (str ''calories'')) = None \<and>
     first_capture (str ''no data here'') (bulletPatterns (str ''calories'')) = None \<and>
     sentence_scan (str ''no data here'') (str ''calories'') = None"
    by auto
  moreover from extract_examples_and_absence[of "str ''calories''" "[]" "str ''Calories: 250kcal''"] p n'
  have "extractFromResponse (str ''Calories: 250kcal'') (str ''calories'') [] \<noteq> Some []"
    by blast
  ultimately show ?thesis using p n by blast
qed

text \<open>
  C5, as the code has it.  The keys are tried in order, and for each key the three
  families in order: the result comes from the first key for which any family gives a
  value, and for that key from the structural patterns, else from the bullet patterns,
  else from the sentences.  A bullet match for an earlier key therefore wins over a
  structural match for a later one.  The result is a function of the text and the keys.
\<close>

theorem extract_key_order_then_family:
  assumes "keys = primaryKey # alternateKeys" and "i < length keys"
    and "list_all plain_key keys"
    and "\<forall>j<i. first_capture text (patterns (keys ! j)) = None \<and>
               first_capture text (bulletPatterns (keys ! j)) = None \<and>
               sentence_scan text (keys ! j) = None"
  shows "(first_capture text (patterns (keys ! i)) = Some v \<longrightarrow>
            extractFromResponse text primaryKey alternateKeys = Some v) \<and>
         (first_capture text (patterns (keys ! i)) = None \<and>
          first_capture text (bulletPatterns (keys ! i)) = Some v \<longrightarrow>
            extractFromResponse text primaryKey alternateKeys = Some v) \<and>
         (first_capture text (patterns (keys ! i)) = None \<and>
          first_capture text (bulletPatterns (keys ! i)) = None \<and>
          sentence_scan text (keys ! i) = Some v \<longrightarrow>
            extractFromResponse text primaryKey alternateKeys = Some v)"
proof -
  have "\<forall>j<i. extract_key text (keys ! j) = None"
    using assms(4) by (simp add: extract_key_None)
  from extract_keys_first[OF assms(2) this]
  have "extractFromResponse text primaryKey alternateKeys =
           (case extract_key text (keys ! i) of Some v \<Rightarrow> Some v
            | None \<Rightarrow> extract_keys text (drop (Suc i) keys))"
    by (simp add: extractFromResponse_def assms(1))
  then show ?thesis by (auto simp: extract_key_def)
qed

theorem extract_key_order_then_family_witness:
  "[str ''a'', str ''b''] = str ''a'' # [str ''b''] \<and> (0::nat) < length [str ''a'', str ''b''] \<and>
   list_all plain_key [str ''a'', str ''b''] \<and>
   first_capture two_line_text (patterns ([str ''a'', str ''b''] ! 0)) = None \<and>
   first_capture two_line_text (bulletPatterns ([str ''a'', str ''b''] ! 0)) = Some (str ''1'') \<and>
   extractFromResponse two_line_text (str ''a'') [str ''b''] = Some (str ''1'')"
  using extract_key_order_then_family[of "[str ''a'', str ''b'']" "str ''a''" "[str ''b'']" 0
      two_line_text "str ''1''"] two_line_facts plain_samples
  by simp

text \<open>
  C5 as stated fails: on the two-line text with the keys \<open>a\<close> and \<open>b\<close> the
  result is the bullet match for \<open>a\<close>, although the first structural pattern matches
  for the candidate key \<open>b\<close>.
\<close>

theorem family_order_counterexample:
  "first_capture two_line_text (patterns (str ''a'')) = None \<and>
   first_capture two_line_text (bulletPatterns (str ''a'')) = Some (str ''1'') \<and>
   first_capture two_line_text (patterns (str ''b'')) = Some (str ''2'') \<and>
   extractFromResponse two_line_text (str ''a'') [str ''b''] = Some (str ''1'')"
  using two_line_facts
  by (simp add: extractFromResponse_def extract_key_def)

section \<open>Properties of the product analysis pipeline\<close>

lemma analyze_never_raises: "\<exists>r. fst (analyzeProductImage e uri w) = Inr r"
  by (auto simp: analyzeProductImage_def split: prod.splits sum.splits)

lemma analyze_catch:
  "fst (analyze_try e uri w) = Inl err \<Longrightarrow>
   analyzeProductImage e uri w =
     (Inr analysis_failed, console_error ''Error analyzing product image:'' (snd (analyze_try e uri w)))"
  by (cases "analyze_try e uri w") (simp add: analyzeProductImage_def)

lemma generateCacheKey_given: "key_given (Some (generateCacheKey f p))"
  by (simp add: generateCacheKey_def JSON_stringify_def)

text \<open>
  C3.  \<open>analyzeProductImage\<close> never throws.  Whenever its try block throws, because
  the credential is missing, because the upload throws, because the model call throws
  after its retries, or because reading the text of the response throws, it returns
  the product name \<open>Unknown Product\<close>, no nutritional info and a description that
  is not empty.
\<close>

theorem analyze_returns_sentinel_on_failure:
  "(\<exists>r. fst (analyzeProductImage e uri w) = Inr r) \<and>
   (fst (analyze_try e uri w) = Inl err \<longrightarrow>
      fst (analyzeProductImage e uri w) = Inr analysis_failed) \<and>
   (\<not> truthy (apiKey e) \<longrightarrow> fst (analyzeProductImage e uri w) = Inr analysis_failed) \<and>
   (truthy (apiKey e) \<and>
    uploadImageToFirebase e uri (console_log ''Uploading image to Firebase Storage...'' w) = (Inl err, w2)
      \<longrightarrow> fst (analyzeProductImage e uri w) = Inr analysis_failed) \<and>
   (truthy (apiKey e) \<and>
    uploadImageToFirebase e uri (console_log ''Uploading image to Firebase Storage...'' w) = (Inr imageUrl, w2) \<and>
    withRetry e (create_completion e imageUrl)
      (Some (generateCacheKey (str ''analyzeProductImage'') uri)) 5
      (console_log ''Sending image to OpenAI for analysis...'' w2) = (Inl err, w4)
      \<longrightarrow> fst (analyzeProductImage e uri w) = Inr analysis_failed) \<and>
   (truthy (apiKey e) \<and>
    uploadImageToFirebase e uri (console_log ''Uploading image to Firebase Storage...'' w) = (Inr imageUrl, w2) \<and>
    withRetry e (create_completion e imageUrl)
      (Some (generateCacheKey (str ''analyzeProductImage'') uri)) 5
      (console_log ''Sending image to OpenAI for analysis...'' w2) = (Inr completion, w4) \<and>
    responseText_of completion = Inl err
      \<longrightarrow> fst (analyzeProductImage e uri w) = Inr analysis_failed) \<and>
   productName analysis_failed = str ''Unknown Product'' \<and>
   nutritionalInfo analysis_failed = None \<and>
   description analysis_failed \<noteq> []"
proof (intro conjI impI)
  show "\<exists>r. fst (analyzeProductImage e uri w) = Inr r" by (rule analyze_never_raises)
  show "productName analysis_failed = str ''Unknown Product''"
    and "nutritionalInfo analysis_failed = None"
    and "description analysis_failed \<noteq> []"
    by (simp_all add: analysis_failed_def str_def)
next
  assume "fst (analyze_try e uri w) = Inl err"
  then show "fst (analyzeProductImage e uri w) = Inr analysis_failed"
    by (simp add: analyze_catch)
next
  assume "\<not> truthy (apiKey e)"
  then have "fst (analyze_try e uri w) =
      Inl (new_Error ''OpenAI API key is missing. Please check your configuration.'')"
    by (simp add: analyze_try_def)
  then show "fst (analyzeProductImage e uri w) = Inr analysis_failed"
    by (simp add: analyze_catch)
next
  assume "truthy (apiKey e) \<and>
    uploadImageToFirebase e uri (console_log ''Uploading image to Firebase Storage...'' w) = (Inl err, w2)"
  then have "fst (analyze_try e uri w) = Inl err"
    by (simp add: analyze_try_def Let_def)
  then show "fst (analyzeProductImage e uri w) = Inr analysis_failed"
    by (simp add: analyze_catch)
next
  assume "truthy (apiKey e) \<and>
    uploadImageToFirebase e uri (console_log ''Uploading image to Firebase Storage...'' w) = (Inr imageUrl, w2) \<and>
    withRetry e (create_completion e imageUrl)
      (Some (generateCacheKey (str ''analyzeProductImage'') uri)) 5
      (console_log ''Sending image to OpenAI for analysis...'' w2) = (Inl err, w4)"
  then have "fst (analyze_try e uri w) = Inl err"
    by (simp add: analyze_try_def Let_def)
  then show "fst (analyzeProductImage e uri w) = Inr analysis_failed"
    by (simp add: analyze_catch)
next
  assume "truthy (apiKey e) \<and>
    uploadImageToFirebase e uri (console_log ''Uploading image to Firebase Storage...'' w) = (Inr imageUrl, w2) \<and>
    withRetry e (create_completion e imageUrl)
      (Some (generateCacheKey (str ''analyzeProductImage'') uri)) 5
      (console_log ''Sending image to OpenAI for analysis...'' w2) = (Inr completion, w4) \<and>
    responseText_of completion = Inl err"
  then have "fst (analyze_try e uri w) = Inl err"
    by (simp add: analyze_try_def Let_def)
  then show "fst (analyzeProductImage e uri w) = Inr analysis_failed"
    by (simp add: analyze_catch)
qed

text \<open>
  C4.  Without the API credential the try block throws the configuration error as its
  first step, after logging it: nothing is fetched, uploaded or read, the model is not
  called, nothing is waited for and the cache is left alone.  The catch block logs the
  error and the caller receives the result of a failed analysis.
\<close>

theorem missing_credential_fails_fast:
  assumes "\<not> truthy (apiKey e)"
  shows "analyze_try e uri w =
           (Inl (new_Error ''OpenAI API key is missing. Please check your configuration.''),
            console_error ''OpenAI API key is not configured'' w) \<and>
         analyzeProductImage e uri w =
           (Inr analysis_failed,
            console_error ''Error analyzing product image:''
              (console_error ''OpenAI API key is not configured'' w)) \<and>
         fetched (snd (analyzeProductImage e uri w)) = fetched w \<and>
         uploaded (snd (analyzeProductImage e uri w)) = uploaded w \<and>
         file_reads (snd (analyzeProductImage e uri w)) = file_reads w \<and>
         fn_calls (snd (analyzeProductImage e uri w)) = fn_calls w \<and>
         timeouts (snd (analyzeProductImage e uri w)) = timeouts w \<and>
         responseCache (snd (analyzeProductImage e uri w)) = responseCache w \<and>
         console (snd (analyzeProductImage e uri w)) =
           console w @ [(ERROR, ''OpenAI API key is not configured''),
                        (ERROR, ''Error analyzing product image:'')]"
  using assms
  by (simp add: analyze_try_def analyzeProductImage_def console_error_def)

theorem missing_credential_fails_fast_witness:
  "\<not> truthy (apiKey no_key_env) \<and>
   fst (analyzeProductImage no_key_env (str ''file:///photo.jpg'') fresh_world) = Inr analysis_failed \<and>
   fetched (snd (analyzeProductImage no_key_env (str ''file:///photo.jpg'') fresh_world)) = [] \<and>
   uploaded (snd (analyzeProductImage no_key_env (str ''file:///photo.jpg'') fresh_world)) = [] \<and>
   fn_calls (snd (analyzeProductImage no_key_env (str ''file:///photo.jpg'') fresh_world)) = 0 \<and>
   timeouts (snd (analyzeProductImage no_key_env (str ''file:///photo.jpg'') fresh_world)) = []"
proof -
  have k: "\<not> truthy (apiKey no_key_env)" by (simp add: no_key_env_def)
  have fw: "fetched fresh_world = []" "uploaded fresh_world = []" "fn_calls fresh_world = 0"
    "timeouts fresh_world = []"
    by (simp_all add: fresh_world_def)
  from missing_credential_fails_fast[OF k, of "str ''file:///photo.jpg''" fresh_world] k fw
  show ?thesis by (simp add: console_error_def)
qed

lemma upload_steady:
  "uploadImageToFirebase steady_env uri w =
     (Inr (str ''https://storage.example/food_images/a.jpg''),
      snd (uploadImageToFirebase steady_env uri w))"
  by (simp add: uploadImageToFirebase_def upload_try_def upload_blob_def steady_env_def
      Date_now_def Math_random_def Let_def)

lemma upload_steady_world:
  "responseCache (snd (uploadImageToFirebase steady_env uri w)) = responseCache w"
  "fn_calls (snd (uploadImageToFirebase steady_env uri w)) = fn_calls w"
  "timeouts (snd (uploadImageToFirebase steady_env uri w)) = timeouts w"
  by (simp_all add: uploadImageToFirebase_def upload_try_def upload_blob_def steady_env_def
      Date_now_def Math_random_def Let_def console_log_def)

lemma steady_model_fails:
  assumes "responseCache w k = None" "k \<noteq> []"
  shows "fst (withRetry steady_env (create_completion steady_env url) (Some k) 5 w) = Inl (new_Error ''503'')"
    and "fn_calls (snd (withRetry steady_env (create_completion steady_env url) (Some k) 5 w)) = fn_calls w + 6"
proof -
  have f: "create_completion steady_env url i = Inl (new_Error ''503'')" for i
    by (simp add: steady_env_def)
  have n: "\<not> nullish (new_Error ''503'')" by (simp add: new_Error_def)
  have c: "getCachedResponse steady_env k w = (JNull, w)"
    using assms(1) by (simp add: getCachedResponse_def)
  have r: "retry_loop steady_env (create_completion steady_env url) (Some k) 5 0 w =
    retry_loop steady_env (create_completion steady_env url) (Some k) 5 5
      (next_attempt steady_env 4 (next_attempt steady_env 3 (next_attempt steady_env 2
        (next_attempt steady_env 1 (next_attempt steady_env 0 w)))))"
    by (simp add: retry_loop_retry[where fn="create_completion steady_env url", OF f n]
        numeral_eq_Suc)
  show "fst (withRetry steady_env (create_completion steady_env url) (Some k) 5 w) = Inl (new_Error ''503'')"
    using assms(2) by (simp add: withRetry_def c r retry_loop_giveup[where fn="create_completion steady_env url", OF f n])
  show "fn_calls (snd (withRetry steady_env (create_completion steady_env url) (Some k) 5 w)) = fn_calls w + 6"
    using assms(2) by (simp add: withRetry_def c r retry_loop_giveup[where fn="create_completion steady_env url", OF f n])
qed

theorem analyze_returns_sentinel_on_failure_witness:
  "truthy (apiKey steady_env) \<and>
   fst (analyze_try steady_env (str ''file:///photo.jpg'') fresh_world) = Inl (new_Error ''503'') \<and>
   fst (analyzeProductImage steady_env (str ''file:///photo.jpg'') fresh_world) = Inr analysis_failed \<and>
   \<not> truthy (apiKey no_key_env) \<and>
   fst (analyzeProductImage no_key_env (str ''file:///photo.jpg'') fresh_world) = Inr analysis_failed"
proof -
  let ?uri = "str ''file:///photo.jpg''"
  let ?url = "str ''https://storage.example/food_images/a.jpg''"
  let ?w1 = "console_log ''Uploading image to Firebase Storage...'' fresh_world"
  let ?k = "generateCacheKey (str ''analyzeProductImage'') ?uri"
  have t: "truthy (apiKey steady_env)" by (simp add: steady_env_def str_def)
  have nk: "\<not> truthy (apiKey no_key_env)" by (simp add: no_key_env_def)
  have kg: "?k \<noteq> []" using generateCacheKey_given[of "str ''analyzeProductImage''" ?uri] by simp
  define w2 where "w2 = snd (uploadImageToFirebase steady_env ?uri ?w1)"
  have up: "uploadImageToFirebase steady_env ?uri ?w1 = (Inr ?url, w2)"
    unfolding w2_def by (rule upload_steady)
  let ?w3 = "console_log ''Sending image to OpenAI for analysis...'' w2"
  have rc: "responseCache ?w3 ?k = None"
    by (simp add: w2_def console_log_def upload_steady_world fresh_world_def)
  define w4 where "w4 = snd (withRetry steady_env (create_completion steady_env ?url) (Some ?k) 5 ?w3)"
  have wr: "withRetry steady_env (create_completion steady_env ?url) (Some ?k) 5 ?w3 =
      (Inl (new_Error ''503''), w4)"
    using steady_model_fails(1)[OF rc kg, of ?url] unfolding w4_def
    by (simp add: prod_eq_iff)
  have tr: "fst (analyze_try steady_env ?uri fresh_world) = Inl (new_Error ''503'')"
    using t by (simp add: analyze_try_def Let_def up wr)
  from analyze_returns_sentinel_on_failure[of steady_env ?uri fresh_world "new_Error ''503''"] tr
  have a: "fst (analyzeProductImage steady_env ?uri fresh_world) = Inr analysis_failed" by blast
  from analyze_returns_sentinel_on_failure[of no_key_env ?uri fresh_world] nk
  have b: "fst (analyzeProductImage no_key_env ?uri fresh_world) = Inr analysis_failed" by blast
  from t tr a nk b show ?thesis by blast
qed

end
